theory Spec2Isabelle
  imports Complex_Main
begin

section \<open>Numeric model\<close>

text \<open>
  The viewer computes with C \<^verbatim>\<open>float\<close> and \<^verbatim>\<open>double\<close>. The values of both are
  modelled by \<^typ>\<open>real\<close>. The camera transform, the zoom and the pan round the
  result of every \<^verbatim>\<open>float\<close> operation to IEEE binary32, as the machine does
  (\<open>round32\<close> below). The functions of \<^verbatim>\<open>vector2.h\<close>, the preset generators and the
  grid step are modelled with exact operations, so a statement about them is a
  statement about the formulas of the program up to the rounding of the machine
  operations. \<^verbatim>\<open>int\<close> and \<^verbatim>\<open>LONG\<close> are 32-bit signed integers, modelled by
  \<^typ>\<open>int\<close> with the range written out where a conversion can leave it;
  \<^verbatim>\<open>size_t\<close> is a 64-bit unsigned integer, modelled by \<^typ>\<open>nat\<close> with the
  wrap-around written out where it can happen.
\<close>

type_synonym c_float = real
type_synonym c_double = real

definition INT_MIN :: int where
  "INT_MIN = - 2147483648"

definition INT_MAX :: int where
  "INT_MAX = 2147483647"

definition SIZE_MAX :: nat where
  "SIZE_MAX = 18446744073709551615"

text \<open>
  Conversion of a floating value to a 32-bit signed integer (\<^verbatim>\<open>(LONG)f\<close>, or the
  implicit conversion of a \<^verbatim>\<open>float\<close> argument to an \<^verbatim>\<open>int\<close> parameter) discards the
  fractional part, rounding towards zero. When the truncated value is not
  representable the behaviour is undefined in C: the model returns \<open>None\<close>.
\<close>

definition c_trunc :: "real \<Rightarrow> int" where
  "c_trunc r = (if 0 \<le> r then \<lfloor>r\<rfloor> else \<lceil>r\<rceil>)"

definition float_to_int :: "c_float \<Rightarrow> int option" where
  "float_to_int r =
     (let i = c_trunc r in if INT_MIN \<le> i \<and> i \<le> INT_MAX then Some i else None)"

subsection \<open>Rounding to binary32\<close>

text \<open>
  IEEE 754 binary32 has a significand of 24 bits and a least exponent of \<open>-126\<close>.
  \<open>round32 r\<close> is the binary32 value nearest to \<open>r\<close>, the even one of two that are
  equally near: with \<open>e\<close> the binary exponent of \<open>r\<close> (not below \<open>-126\<close>, where the
  subnormal numbers start), the values around \<open>r\<close> are the multiples of
  \<open>2 ^ (e - 23)\<close>. Overflow to an infinity (beyond about \<open>3.4 * 10^38\<close>) is not
  modelled: no value of the program comes near it in the statements below.
  A \<^verbatim>\<open>float\<close> operation is the exact operation followed by \<open>round32\<close>, and so is
  the conversion of an integer to \<^verbatim>\<open>float\<close>.
\<close>

definition rne :: "real \<Rightarrow> int" where
  "rne t =
     (let f = \<lfloor>t\<rfloor>; d = t - real_of_int f
      in if d < 1 / 2 then f else if d > 1 / 2 then f + 1 else if even f then f else f + 1)"

definition round32 :: "real \<Rightarrow> c_float" where
  "round32 r =
     (if r = 0 then 0
      else let e = max \<lfloor>log 2 \<bar>r\<bar>\<rfloor> (- 126);
               ulp = 2 powr real_of_int (e - 23)
           in real_of_int (rne (r / ulp)) * ulp)"

definition f_add :: "c_float \<Rightarrow> c_float \<Rightarrow> c_float" where
  "f_add a b = round32 (a + b)"

definition f_sub :: "c_float \<Rightarrow> c_float \<Rightarrow> c_float" where
  "f_sub a b = round32 (a - b)"

definition f_mul :: "c_float \<Rightarrow> c_float \<Rightarrow> c_float" where
  "f_mul a b = round32 (a * b)"

definition f_div :: "c_float \<Rightarrow> c_float \<Rightarrow> c_float" where
  "f_div a b = round32 (a / b)"

definition int_to_float :: "int \<Rightarrow> c_float" where
  "int_to_float i = round32 (real_of_int i)"

section \<open>Labels: \<^verbatim>\<open>make_label\<close>\<close>

text \<open>
  \<^verbatim>\<open>
  static void make_label(size_t idx, char* out, size_t outsz) {
      if (outsz == 0) return;
      char tmp[32];
      size_t n = 0;
      size_t x = idx + 1;
      while (x > 0 && n < sizeof(tmp)) {
          x--;
          tmp[n++] = (char)('a' + (x % 26));
          x /= 26;
      }
      size_t m = (n < outsz - 1) ? n : (outsz - 1);
      for (size_t i = 0; i < m; ++i) out[i] = tmp[n - 1 - i];
      out[m] = '\0';
  }
  \<close>
  The loop is \<open>make_label_loop\<close>: its state is \<open>x\<close> and the filled part of
  \<open>tmp\<close> (so \<open>n\<close> is the length of that list). \<open>make_label\<close> returns the bytes
  the function writes to \<open>out\<close>, from offset 0 on: \<open>m\<close> letters and the terminator;
  nothing is written when \<open>outsz\<close> is 0. \<open>idx + 1\<close> wraps at the width of
  \<^verbatim>\<open>size_t\<close>.
\<close>

function make_label_loop :: "nat \<Rightarrow> char list \<Rightarrow> char list" where
  "make_label_loop x tmp =
     (if 0 < x \<and> length tmp < 32
      then make_label_loop ((x - 1) div 26)
             (tmp @ [char_of (of_char (CHR ''a'') + (x - 1) mod 26 :: nat)])
      else tmp)"
  by pat_completeness auto
termination
  by (relation "measure (\<lambda>(x, tmp). 32 - length tmp)") auto

declare make_label_loop.simps [simp del]

definition make_label :: "nat \<Rightarrow> nat \<Rightarrow> char list" where
  "make_label idx outsz =
     (if outsz = 0 then []
      else let tmp = make_label_loop ((idx + 1) mod (SIZE_MAX + 1)) [];
               n = length tmp;
               m = (if n < outsz - 1 then n else outsz - 1)
           in map (\<lambda>i. tmp ! (n - 1 - i)) [0..<m] @ [CHR 0x00])"

text \<open>The text of a C string: the bytes before the first terminator.\<close>

definition c_str :: "char list \<Rightarrow> string" where
  "c_str bs = takeWhile (\<lambda>c. c \<noteq> CHR 0x00) bs"

subsection \<open>The label sequence as the specification describes it\<close>

text \<open>
  Bijective base 26 on unbounded naturals, following the words of the specification:
  starting from \<open>n = index + 1\<close>, the next (least significant) letter is
  \<open>(n - 1) mod 26\<close>, then \<open>n\<close> becomes \<open>(n - 1) div 26\<close>, until \<open>n = 0\<close>; the
  collected letters are reversed.
\<close>

function bijective_base26 :: "nat \<Rightarrow> char list" where
  "bijective_base26 n =
     (if n = 0 then []
      else char_of (of_char (CHR ''a'') + (n - 1) mod 26 :: nat)
             # bijective_base26 ((n - 1) div 26))"
  by pat_completeness auto
termination
  by (relation "measure id") (auto simp: div_less_dividend)

declare bijective_base26.simps [simp del]

definition label_for :: "nat \<Rightarrow> string" where
  "label_for index = rev (bijective_base26 (index + 1))"

text \<open>
  The number that a label denotes in bijective base 26: the letters \<open>a\<close> to \<open>z\<close>
  are the digits 1 to 26, the most significant digit first.
\<close>

definition label_value :: "string \<Rightarrow> nat" where
  "label_value ls = foldl (\<lambda>v c. 26 * v + (of_char c - of_char (CHR ''a'') + 1)) 0 ls"

section \<open>Vector mathematics: \<^verbatim>\<open>vector2.h\<close>\<close>

text \<open>
  \<^verbatim>\<open>typedef struct { float x, y; } vec2;\<close>
  The fields carry the name of the struct, since \<open>x\<close> and \<open>y\<close> are also the names
  of parameters and local variables throughout the program.
\<close>

record vec2 =
  vec2_x :: c_float
  vec2_y :: c_float

text \<open>\<^verbatim>\<open>#define EPSILON 1e-6f\<close>\<close>

definition EPSILON :: c_float where
  "EPSILON = 1 / 1000000"

definition vec2_add :: "vec2 \<Rightarrow> vec2 \<Rightarrow> vec2" where
  "vec2_add a b = \<lparr>vec2_x = vec2_x a + vec2_x b, vec2_y = vec2_y a + vec2_y b\<rparr>"

definition vec2_sub :: "vec2 \<Rightarrow> vec2 \<Rightarrow> vec2" where
  "vec2_sub a b = \<lparr>vec2_x = vec2_x a - vec2_x b, vec2_y = vec2_y a - vec2_y b\<rparr>"

definition vec2_mul :: "vec2 \<Rightarrow> c_float \<Rightarrow> vec2" where
  "vec2_mul a t = \<lparr>vec2_x = vec2_x a * t, vec2_y = vec2_y a * t\<rparr>"

definition vec2_length2 :: "vec2 \<Rightarrow> c_float" where
  "vec2_length2 a = vec2_x a * vec2_x a + vec2_y a * vec2_y a"

definition vec2_length :: "vec2 \<Rightarrow> c_float" where
  "vec2_length a = sqrt (vec2_length2 a)"

definition vec2_dist2 :: "vec2 \<Rightarrow> vec2 \<Rightarrow> c_float" where
  "vec2_dist2 a b =
     (let diff_x = vec2_x a - vec2_x b; diff_y = vec2_y a - vec2_y b
      in diff_x * diff_x + diff_y * diff_y)"

definition vec2_dist :: "vec2 \<Rightarrow> vec2 \<Rightarrow> c_float" where
  "vec2_dist a b = sqrt (vec2_dist2 a b)"

definition vec2_normalize :: "vec2 \<Rightarrow> vec2" where
  "vec2_normalize a =
     (let len = vec2_length a
      in if len = 0 then \<lparr>vec2_x = 0, vec2_y = 0\<rparr>
         else \<lparr>vec2_x = vec2_x a / len, vec2_y = vec2_y a / len\<rparr>)"

definition vec2_dot :: "vec2 \<Rightarrow> vec2 \<Rightarrow> c_float" where
  "vec2_dot a b = vec2_x a * vec2_x b + vec2_y a * vec2_y b"

definition vec2_cross :: "vec2 \<Rightarrow> vec2 \<Rightarrow> c_float" where
  "vec2_cross a b = vec2_x a * vec2_y b - vec2_y a * vec2_x b"

definition vec2_angle :: "vec2 \<Rightarrow> vec2 \<Rightarrow> c_float" where
  "vec2_angle a b =
     (let dot = vec2_dot a b; len_a = vec2_length a; len_b = vec2_length b
      in if len_a = 0 \<or> len_b = 0 then 0 else arccos (dot / (len_a * len_b)))"

text \<open>
  \<^verbatim>\<open>
  static inline bool vec2_equal(vec2* a, vec2* b, const float eps)
  {
      if (vec2_length(a) < eps && vec2_length(b) < eps) {
          return true;
      }
      return fabsf(a->x - b->x) <= eps * fmaxf(fabsf(a->x), fabsf(b->x)) &&
             fabsf(a->y - b->y) <= eps * fmaxf(fabsf(a->y), fabsf(b->y));
  }
  \<close>
\<close>

definition vec2_equal :: "vec2 \<Rightarrow> vec2 \<Rightarrow> c_float \<Rightarrow> bool" where
  "vec2_equal a b eps =
     (if vec2_length a < eps \<and> vec2_length b < eps then True
      else \<bar>vec2_x a - vec2_x b\<bar> \<le> eps * max \<bar>vec2_x a\<bar> \<bar>vec2_x b\<bar> \<and>
           \<bar>vec2_y a - vec2_y b\<bar> \<le> eps * max \<bar>vec2_y a\<bar> \<bar>vec2_y b\<bar>)"

definition vec2_min :: "vec2 \<Rightarrow> vec2 \<Rightarrow> vec2" where
  "vec2_min a b =
     \<lparr>vec2_x = (if vec2_x a < vec2_x b then vec2_x a else vec2_x b),
      vec2_y = (if vec2_y a < vec2_y b then vec2_y a else vec2_y b)\<rparr>"

definition vec2_max :: "vec2 \<Rightarrow> vec2 \<Rightarrow> vec2" where
  "vec2_max a b =
     \<lparr>vec2_x = (if vec2_x a > vec2_x b then vec2_x a else vec2_x b),
      vec2_y = (if vec2_y a > vec2_y b then vec2_y a else vec2_y b)\<rparr>"

text \<open>
  \<^verbatim>\<open>
  static inline vec2 vec2_abs(vec2* a)
  {
      return (vec2){
          abs(a->x),
          abs(a->y)
      };
  }
  \<close>
  \<^verbatim>\<open>abs\<close> is the function \<^verbatim>\<open>int abs(int)\<close> of \<^verbatim>\<open>stdlib.h\<close>, which
  \<^verbatim>\<open>viewer_win32.c\<close> includes before this header: each \<^verbatim>\<open>float\<close> component is
  converted to \<^verbatim>\<open>int\<close> for the call, and the \<^verbatim>\<open>int\<close> result is converted back to
  \<^verbatim>\<open>float\<close>. \<open>c_abs\<close> is that library function; its behaviour on
  \<^verbatim>\<open>INT_MIN\<close> is undefined.
\<close>

definition c_abs :: "int \<Rightarrow> int option" where
  "c_abs i = (if i = INT_MIN then None else Some \<bar>i\<bar>)"

definition vec2_abs :: "vec2 \<Rightarrow> vec2 option" where
  "vec2_abs a =
     (case (Option.bind (float_to_int (vec2_x a)) c_abs,
            Option.bind (float_to_int (vec2_y a)) c_abs) of
        (Some ax, Some ay) \<Rightarrow> Some \<lparr>vec2_x = real_of_int ax, vec2_y = real_of_int ay\<rparr>
      | _ \<Rightarrow> None)"

definition vec2_perp :: "vec2 \<Rightarrow> vec2" where
  "vec2_perp a = \<lparr>vec2_x = - vec2_y a, vec2_y = vec2_x a\<rparr>"

definition vec2_project :: "vec2 \<Rightarrow> vec2 \<Rightarrow> vec2" where
  "vec2_project a onto_b =
     (let scalar = vec2_dot a onto_b / vec2_length2 onto_b
      in \<lparr>vec2_x = vec2_x onto_b * scalar, vec2_y = vec2_y onto_b * scalar\<rparr>)"

definition vec2_reject :: "vec2 \<Rightarrow> vec2 \<Rightarrow> vec2" where
  "vec2_reject a from_b =
     (let projection = vec2_project a from_b
      in \<lparr>vec2_x = vec2_x a - vec2_x projection, vec2_y = vec2_y a - vec2_y projection\<rparr>)"

definition vec2_reflect :: "vec2 \<Rightarrow> vec2 \<Rightarrow> vec2" where
  "vec2_reflect a n =
     (let safe_n = vec2_normalize n; dot = vec2_dot a safe_n
      in \<lparr>vec2_x = vec2_x a - 2 * dot * vec2_x safe_n,
          vec2_y = vec2_y a - 2 * dot * vec2_y safe_n\<rparr>)"

definition vec2_rotate :: "vec2 \<Rightarrow> c_float \<Rightarrow> vec2" where
  "vec2_rotate a radians =
     (let cos_radians = cos radians; sin_radians = sin radians
      in \<lparr>vec2_x = vec2_x a * cos_radians - vec2_y a * sin_radians,
          vec2_y = vec2_x a * sin_radians + vec2_y a * cos_radians\<rparr>)"

definition vec2_rotate_around :: "vec2 \<Rightarrow> vec2 \<Rightarrow> c_float \<Rightarrow> vec2" where
  "vec2_rotate_around v pivot radians =
     (let dv = \<lparr>vec2_x = vec2_x v - vec2_x pivot, vec2_y = vec2_y v - vec2_y pivot\<rparr>;
          r = vec2_rotate dv radians
      in \<lparr>vec2_x = vec2_x r + vec2_x pivot, vec2_y = vec2_y r + vec2_y pivot\<rparr>)"

definition vec2_rot90_ccw :: "vec2 \<Rightarrow> vec2" where
  "vec2_rot90_ccw v = \<lparr>vec2_x = - vec2_y v, vec2_y = vec2_x v\<rparr>"

definition vec2_rot90_cw :: "vec2 \<Rightarrow> vec2" where
  "vec2_rot90_cw v = \<lparr>vec2_x = vec2_y v, vec2_y = - vec2_x v\<rparr>"

section \<open>The viewer: \<^verbatim>\<open>viewer_win32.c\<close>\<close>

subsection \<open>Data\<close>

text \<open>
  \<^verbatim>\<open>Camera\<close>, the Windows \<^verbatim>\<open>POINT\<close> (two \<^verbatim>\<open>LONG\<close> fields \<open>x\<close>, \<open>y\<close>),
  \<^verbatim>\<open>VEntry\<close> and \<^verbatim>\<open>VecList\<close>. A \<^verbatim>\<open>COLORREF\<close> is a number; \<open>RGB\<close> is the macro
  of the Windows headers. The \<open>label\<close> of an entry holds the bytes that
  \<open>make_label\<close> wrote to the 8-byte buffer. \<open>data\<close> is the allocated block: one
  slot per reserved entry, \<open>None\<close> for a slot that was never written (the block is
  \<^verbatim>\<open>NULL\<close> when it has no slot).
\<close>

record Camera =
  scale :: c_float
  panX :: c_float
  panY :: c_float

record POINT =
  POINT_x :: int
  POINT_y :: int

definition RGB :: "nat \<Rightarrow> nat \<Rightarrow> nat \<Rightarrow> nat" where
  "RGB r g b = r + 256 * g + 65536 * b"

record VEntry =
  VEntry_v :: vec2
  color :: nat
  label :: "char list"

record VecList =
  data :: "VEntry option list"
  len :: nat
  cap :: nat

text \<open>
  The global variables of the program. \<open>c_rand\<close> is not a variable of the program
  but the state of the C library it reads: the values that successive calls of
  \<^verbatim>\<open>rand()\<close> return after \<^verbatim>\<open>srand((unsigned)time(NULL))\<close>.
\<close>

record globals =
  g_cam :: Camera
  g_clientW :: int
  g_clientH :: int
  g_label_counter :: nat
  g_vecs :: VecList
  g_preset_index :: int
  g_preset_name :: string
  g_rightDragging :: bool
  g_lastMouse :: POINT
  c_rand :: "nat \<Rightarrow> nat"

definition init_globals :: "(nat \<Rightarrow> nat) \<Rightarrow> globals" where
  "init_globals rnd =
     \<lparr>g_cam = \<lparr>scale = 80, panX = 0, panY = 0\<rparr>,
      g_clientW = 800,
      g_clientH = 600,
      g_label_counter = 0,
      g_vecs = \<lparr>data = [], len = 0, cap = 0\<rparr>,
      g_preset_index = 0,
      g_preset_name = ''Empty'',
      g_rightDragging = False,
      g_lastMouse = \<lparr>POINT_x = 0, POINT_y = 0\<rparr>,
      c_rand = rnd\<rparr>"

text \<open>
  The globals at the start of the program, with a library generator that returns 0
  at every call: the state of the concrete examples.
\<close>

definition start0 :: globals where
  "start0 = init_globals (\<lambda>k. 0)"

subsection \<open>Camera\<close>

text \<open>
  \<^verbatim>\<open>
  static inline float clampf(float x, float a, float b) {
      return x < a ? a : (x > b ? b : x);
  }
  static inline POINT world_to_screen(float x, float y) {
      POINT p;
      p.x = (LONG)(g_clientW * 0.5f + g_cam.panX + x * g_cam.scale);
      p.y = (LONG)(g_clientH * 0.5f + g_cam.panY - y * g_cam.scale);
      return p;
  }
  static inline vec2 screen_to_world(LONG sx, LONG sy) {
      float x = ((float)sx - (g_clientW * 0.5f) - g_cam.panX) / g_cam.scale;
      float y = ((g_clientH * 0.5f) + g_cam.panY - (float)sy) / g_cam.scale;
      return (vec2){ x, y };
  }
  \<close>
  Every function that reads a global variable takes the globals as its last
  argument. Every operation is a \<^verbatim>\<open>float\<close> operation: the \<^verbatim>\<open>int\<close> and \<^verbatim>\<open>LONG\<close>
  operands are converted to \<^verbatim>\<open>float\<close> first, and \<open>0.5\<close> is a binary32 value. A
  division by a \<open>scale\<close> of 0 is outside the model (the quotient is 0 in HOL): the
  statements about \<open>screen_to_world\<close> assume a scale in \<open>[10, 2000]\<close>, where the
  program keeps it.
\<close>

definition clampf :: "c_float \<Rightarrow> c_float \<Rightarrow> c_float \<Rightarrow> c_float" where
  "clampf x a b = (if x < a then a else if x > b then b else x)"

definition world_to_screen :: "c_float \<Rightarrow> c_float \<Rightarrow> globals \<Rightarrow> POINT option" where
  "world_to_screen x y s =
     (case (float_to_int
              (f_add (f_add (f_mul (int_to_float (g_clientW s)) 0.5) (panX (g_cam s)))
                     (f_mul x (scale (g_cam s)))),
            float_to_int
              (f_sub (f_add (f_mul (int_to_float (g_clientH s)) 0.5) (panY (g_cam s)))
                     (f_mul y (scale (g_cam s))))) of
        (Some px, Some py) \<Rightarrow> Some \<lparr>POINT_x = px, POINT_y = py\<rparr>
      | _ \<Rightarrow> None)"

definition screen_to_world :: "int \<Rightarrow> int \<Rightarrow> globals \<Rightarrow> vec2" where
  "screen_to_world sx sy s =
     \<lparr>vec2_x =
        f_div (f_sub (f_sub (int_to_float sx) (f_mul (int_to_float (g_clientW s)) 0.5))
                     (panX (g_cam s)))
              (scale (g_cam s)),
      vec2_y =
        f_div (f_sub (f_add (f_mul (int_to_float (g_clientH s)) 0.5) (panY (g_cam s)))
                     (int_to_float sy))
              (scale (g_cam s))\<rparr>"

text \<open>
  \<^verbatim>\<open>
  static double nice_step_for_scale(double target_world_step) {
      if (target_world_step <= 0.0) return 1.0;
      double k = floor(log10(target_world_step));
      double base = pow(10.0, k);
      double frac = target_world_step / base;
      double m = (frac < 1.5) ? 1.0 : (frac < 3.0) ? 2.0 : (frac < 7.0) ? 5.0 : 10.0;
      return m * base;
  }
  \<close>
\<close>

definition nice_step_for_scale :: "c_double \<Rightarrow> c_double" where
  "nice_step_for_scale target_world_step =
     (if target_world_step \<le> 0 then 1
      else let k = real_of_int \<lfloor>log 10 target_world_step\<rfloor>;
               base = 10 powr k;
               frac = target_world_step / base;
               m = (if frac < 1.5 then 1 else if frac < 3 then 2 else if frac < 7 then 5 else 10)
           in m * base)"

subsection \<open>Vector storage\<close>

text \<open>
  \<^verbatim>\<open>
  static void veclist_reserve(VecList* v, size_t want) {
      if (want <= v->cap) return;
      size_t newCap = v->cap ? v->cap * 2 : 16;
      if (newCap < want) newCap = want;
      VEntry* nd = (VEntry*)realloc(v->data, newCap * sizeof(VEntry));
      if (!nd) return;
      v->data = nd;
      v->cap  = newCap;
  }
  static void veclist_push(VecList* v, vec2 value, COLORREF col) {
      if (v->len + 1 > v->cap) veclist_reserve(v, v->len + 1);
      VEntry* e = &v->data[v->len];
      e->v = value;
      e->color = col;
      make_label(g_label_counter++, e->label, sizeof(e->label));
      v->len++;
  }
  static void veclist_clear(VecList* v) { v->len = 0; }
  static void veclist_free (VecList* v) { free(v->data); v->data = NULL; v->len = v->cap = 0; }
  \<close>
  \<^verbatim>\<open>realloc\<close> is taken to succeed: it keeps the old slots and adds unwritten ones.
  The only list of the program is \<^verbatim>\<open>g_vecs\<close>, so \<open>veclist_push\<close>, which also
  advances the global label counter, works on the globals; the functions that touch
  nothing but the list work on the list. The slot that \<open>veclist_push\<close> writes
  exists, since the functions keep \<open>len \<le> cap\<close> (\<open>veclist_wf\<close> below). The sizes
  stay far below \<^verbatim>\<open>SIZE_MAX\<close>, so \<open>cap * 2\<close> and \<open>len + 1\<close> are not reduced.
\<close>

definition veclist_reserve :: "nat \<Rightarrow> VecList \<Rightarrow> VecList" where
  "veclist_reserve want v =
     (if want \<le> cap v then v
      else let newCap = (if cap v \<noteq> 0 then cap v * 2 else 16);
               newCap = (if newCap < want then want else newCap)
           in v\<lparr>data := data v @ replicate (newCap - length (data v)) None, cap := newCap\<rparr>)"

definition veclist_push :: "vec2 \<Rightarrow> nat \<Rightarrow> globals \<Rightarrow> globals" where
  "veclist_push val col s =
     (let v = (if len (g_vecs s) + 1 > cap (g_vecs s)
               then veclist_reserve (len (g_vecs s) + 1) (g_vecs s) else g_vecs s);
          e = \<lparr>VEntry_v = val, color = col, label = make_label (g_label_counter s) 8\<rparr>
      in s\<lparr>g_vecs := v\<lparr>data := (data v)[len v := Some e], len := len v + 1\<rparr>,
           g_label_counter := (g_label_counter s + 1) mod (SIZE_MAX + 1)\<rparr>)"

definition veclist_clear :: "VecList \<Rightarrow> VecList" where
  "veclist_clear v = v\<lparr>len := 0\<rparr>"

definition veclist_free :: "VecList \<Rightarrow> VecList" where
  "veclist_free v = v\<lparr>data := [], len := 0, cap := 0\<rparr>"

text \<open>
  The list as the functions above keep it: the block has \<open>cap\<close> slots, of which
  the first \<open>len\<close> are in use.
\<close>

definition veclist_wf :: "VecList \<Rightarrow> bool" where
  "veclist_wf v \<longleftrightarrow> length (data v) = cap v \<and> len v \<le> cap v"

subsection \<open>Presets\<close>

text \<open>
  \<^verbatim>\<open>
  static inline void add_vec_col(float x, float y, COLORREF c) {
      veclist_push(&g_vecs, (vec2){x,y}, c);
  }
  static void reset_list_and_labels(void) {
      veclist_clear(&g_vecs);
      g_label_counter = 0;
  }
  \<close>
  Each generator calls \<^verbatim>\<open>reset_list_and_labels\<close> and then \<^verbatim>\<open>add_vec_col\<close> for
  its vectors, in order: the model folds \<open>add_vec_col\<close> over the list of the
  vectors (for a loop, over its counter).
\<close>

definition add_vec_col :: "c_float \<Rightarrow> c_float \<Rightarrow> nat \<Rightarrow> globals \<Rightarrow> globals" where
  "add_vec_col x y c s = veclist_push \<lparr>vec2_x = x, vec2_y = y\<rparr> c s"

definition reset_list_and_labels :: "globals \<Rightarrow> globals" where
  "reset_list_and_labels s = s\<lparr>g_vecs := veclist_clear (g_vecs s), g_label_counter := 0\<rparr>"

definition preset_empty :: "globals \<Rightarrow> globals" where
  "preset_empty s = reset_list_and_labels s"

definition preset_basis :: "globals \<Rightarrow> globals" where
  "preset_basis s =
     fold (\<lambda>(x, y, c). add_vec_col x y c)
       [(2, 0, RGB 230 80 80),
        (0, 2, RGB 80 160 255),
        (- 2, 0, RGB 160 90 90),
        (0, - 2, RGB 90 120 180),
        (1.5, 1.5, RGB 90 220 120),
        (- 1.5, 1.5, RGB 220 180 90)]
       (reset_list_and_labels s)"

definition preset_spokes :: "globals \<Rightarrow> globals" where
  "preset_spokes s =
     fold (\<lambda>i. let a = real i * (2 * pi / 16)
               in add_vec_col (cos a * 3) (sin a * 3) (RGB 120 210 140))
       [0..<16]
       (reset_list_and_labels s)"

text \<open>\<^verbatim>\<open>RAND_MAX\<close> as the Microsoft C library defines it.\<close>

definition RAND_MAX :: nat where
  "RAND_MAX = 32767"

definition preset_random :: "globals \<Rightarrow> globals" where
  "preset_random s =
     fold (\<lambda>i. let x = (real (c_rand s (2 * i)) / real RAND_MAX) * 10 - 5;
                   y = (real (c_rand s (2 * i + 1)) / real RAND_MAX) * 6 - 3
               in add_vec_col x y (RGB 80 220 160))
       [0..<40]
       (reset_list_and_labels s)"

definition preset_projection :: "globals \<Rightarrow> globals" where
  "preset_projection s =
     (let a = \<lparr>vec2_x = 3, vec2_y = 2\<rparr>;
          b = \<lparr>vec2_x = 4, vec2_y = 1\<rparr>;
          p = vec2_project a b
      in fold (\<lambda>(x, y, c). add_vec_col x y c)
           [(vec2_x a, vec2_y a, RGB 90 200 255),
            (vec2_x b, vec2_y b, RGB 255 160 60),
            (vec2_x p, vec2_y p, RGB 255 220 0)]
           (reset_list_and_labels s))"

definition preset_reflection :: "globals \<Rightarrow> globals" where
  "preset_reflection s =
     (let i = \<lparr>vec2_x = 3, vec2_y = - 2\<rparr>;
          n = \<lparr>vec2_x = 0, vec2_y = 1\<rparr>;
          r = vec2_reflect i n
      in fold (\<lambda>(x, y, c). add_vec_col x y c)
           [(vec2_x i, vec2_y i, RGB 90 200 255),
            (vec2_x n, vec2_y n, RGB 255 160 60),
            (vec2_x r, vec2_y r, RGB 255 80 200)]
           (reset_list_and_labels s))"

definition preset_rotations :: "globals \<Rightarrow> globals" where
  "preset_rotations s =
     (let v = \<lparr>vec2_x = 4, vec2_y = 0\<rparr>
      in fold (\<lambda>k. let a = real k * (2 * pi / 12);
                       r = vec2_rotate v a
                   in add_vec_col (vec2_x r) (vec2_y r) (RGB 100 210 130))
           [0..<12]
           (reset_list_and_labels s))"

text \<open>
  \<^verbatim>\<open>
  typedef void (*PresetFn)(void);
  typedef struct { const char* name; PresetFn fn; } PresetDesc;

  static PresetDesc g_presets[] = {
      {"Empty",                 preset_empty},
      {"Basis & Diagonals",     preset_basis},
      {"Spokes Circle",         preset_spokes},
      {"Random Vectors",        preset_random},
      {"Projection (a onto b)", preset_projection},
      {"Reflection (i about n)",preset_reflection},
      {"Rotations",             preset_rotations},
  };
  static const int g_preset_count = (int)(sizeof(g_presets)/sizeof(g_presets[0]));
  static int g_preset_index = 0;
  static const char* g_preset_name = "Empty";

  static void preset_apply_index(int idx) {
      if (g_preset_count == 0) return;
      if (idx < 0) idx = (g_preset_count - 1);
      if (idx >= g_preset_count) idx = 0;
      g_preset_index = idx;
      g_preset_name = g_presets[g_preset_index].name;
      g_presets[g_preset_index].fn();
  }
  static void preset_next(void) { preset_apply_index(g_preset_index + 1); }
  static void preset_prev(void) { preset_apply_index(g_preset_index - 1); }
  \<close>
\<close>

record PresetDesc =
  name :: string
  fn :: "globals \<Rightarrow> globals"

definition g_presets :: "PresetDesc list" where
  "g_presets =
     [\<lparr>name = ''Empty'', fn = preset_empty\<rparr>,
      \<lparr>name = ''Basis & Diagonals'', fn = preset_basis\<rparr>,
      \<lparr>name = ''Spokes Circle'', fn = preset_spokes\<rparr>,
      \<lparr>name = ''Random Vectors'', fn = preset_random\<rparr>,
      \<lparr>name = ''Projection (a onto b)'', fn = preset_projection\<rparr>,
      \<lparr>name = ''Reflection (i about n)'', fn = preset_reflection\<rparr>,
      \<lparr>name = ''Rotations'', fn = preset_rotations\<rparr>]"

definition g_preset_count :: int where
  "g_preset_count = int (length g_presets)"

definition preset_apply_index :: "int \<Rightarrow> globals \<Rightarrow> globals" where
  "preset_apply_index idx s =
     (if g_preset_count = 0 then s
      else let idx = (if idx < 0 then g_preset_count - 1 else idx);
               idx = (if idx \<ge> g_preset_count then 0 else idx);
               s = s\<lparr>g_preset_index := idx\<rparr>;
               s = s\<lparr>g_preset_name := name (g_presets ! nat (g_preset_index s))\<rparr>
           in fn (g_presets ! nat (g_preset_index s)) s)"

definition preset_next :: "globals \<Rightarrow> globals" where
  "preset_next s = preset_apply_index (g_preset_index s + 1) s"

definition preset_prev :: "globals \<Rightarrow> globals" where
  "preset_prev s = preset_apply_index (g_preset_index s - 1) s"

subsection \<open>Zoom and the window procedure\<close>

text \<open>
  \<^verbatim>\<open>
  static void handle_zoom_at_cursor(short wheelDelta, int mx, int my) {
      vec2 w0 = screen_to_world(mx, my);
      float zoomFactor = (wheelDelta > 0) ? 1.1f : 1.0f / 1.1f;
      g_cam.scale = clampf(g_cam.scale * zoomFactor, 10.0f, 2000.0f);
      POINT s1 = world_to_screen(w0.x, w0.y);
      g_cam.panX += (float)(mx - s1.x);
      g_cam.panY += (float)(my - s1.y);
  }
  \<close>
  \<^verbatim>\<open>wheelDelta\<close> is a \<^verbatim>\<open>short\<close>, of which only the sign is read. The constant
  \<^verbatim>\<open>1.1f\<close> is the binary32 value nearest to \<open>1.1\<close>, and \<^verbatim>\<open>1.0f / 1.1f\<close> is a
  \<^verbatim>\<open>float\<close> division. The differences \<^verbatim>\<open>mx - s1.x\<close> and \<^verbatim>\<open>my - s1.y\<close> are integer
  subtractions, converted to \<^verbatim>\<open>float\<close> before they are added to the pan. The result
  is \<open>None\<close> when \<^verbatim>\<open>world_to_screen\<close> leaves the range of \<^verbatim>\<open>LONG\<close>.
\<close>

definition handle_zoom_at_cursor :: "int \<Rightarrow> int \<Rightarrow> int \<Rightarrow> globals \<Rightarrow> globals option" where
  "handle_zoom_at_cursor wheelDelta mx my s =
     (let w0 = screen_to_world mx my s;
          zoomFactor = (if wheelDelta > 0 then round32 1.1 else f_div 1 (round32 1.1));
          s = s\<lparr>g_cam := (g_cam s)\<lparr>scale := clampf (f_mul (scale (g_cam s)) zoomFactor) 10 2000\<rparr>\<rparr>
      in case world_to_screen (vec2_x w0) (vec2_y w0) s of
           None \<Rightarrow> None
         | Some s1 \<Rightarrow>
             Some (s\<lparr>g_cam := (g_cam s)
                     \<lparr>panX := f_add (panX (g_cam s)) (int_to_float (mx - POINT_x s1)),
                      panY := f_add (panY (g_cam s)) (int_to_float (my - POINT_y s1))\<rparr>\<rparr>))"

text \<open>
  The messages of \<^verbatim>\<open>WndProc\<close> that change the globals, with the values the
  procedure extracts from \<^verbatim>\<open>wParam\<close> and \<^verbatim>\<open>lParam\<close>: the client size, the mouse
  position (for the wheel, after \<^verbatim>\<open>ScreenToClient\<close>), the wheel delta, the virtual
  key. Painting reads the globals and is not modelled.
  \<^verbatim>\<open>
      case WM_CREATE:
          preset_apply_index(0);
      case WM_SIZE:
          g_clientW = LOWORD(lParam);
          g_clientH = HIWORD(lParam);
      case WM_LBUTTONDOWN: {
          vec2 w = screen_to_world(mx, my);
          veclist_push(&g_vecs, w, RGB(80,220,160));
      }
      case WM_RBUTTONDOWN:
          g_rightDragging = TRUE;
          g_lastMouse.x = GET_X_LPARAM(lParam);
          g_lastMouse.y = GET_Y_LPARAM(lParam);
      case WM_MOUSEMOVE:
          if (g_rightDragging) {
              g_cam.panX += (float)(mx - g_lastMouse.x);
              g_cam.panY += (float)(my - g_lastMouse.y);
              g_lastMouse.x = mx;
              g_lastMouse.y = my;
          }
      case WM_RBUTTONUP:
          g_rightDragging = FALSE;
      case WM_MOUSEWHEEL:
          handle_zoom_at_cursor(delta, scr.x, scr.y);
      case WM_KEYDOWN:
          if (wParam == VK_DELETE) {
              veclist_clear(&g_vecs);
              g_label_counter = 0;
          } else if (wParam == 'R') {
              g_cam.scale = 80.0f; g_cam.panX = 0.0f; g_cam.panY = 0.0f;
          } else if (wParam == '1') {
              preset_prev();
          } else if (wParam == '2') {
              preset_next();
          }
      case WM_DESTROY:
          veclist_free(&g_vecs);
  \<close>
\<close>

datatype msg =
  WM_CREATE
  | WM_SIZE int int
  | WM_LBUTTONDOWN int int
  | WM_RBUTTONDOWN int int
  | WM_MOUSEMOVE int int
  | WM_RBUTTONUP
  | WM_MOUSEWHEEL int int int
  | WM_KEYDOWN nat
  | WM_DESTROY

definition VK_DELETE :: nat where
  "VK_DELETE = 46"

fun WndProc :: "msg \<Rightarrow> globals \<Rightarrow> globals option" where
  "WndProc WM_CREATE s = Some (preset_apply_index 0 s)"
| "WndProc (WM_SIZE w h) s = Some (s\<lparr>g_clientW := w, g_clientH := h\<rparr>)"
| "WndProc (WM_LBUTTONDOWN mx my) s =
     (let w = screen_to_world mx my s in Some (veclist_push w (RGB 80 220 160) s))"
| "WndProc (WM_RBUTTONDOWN mx my) s =
     Some (s\<lparr>g_rightDragging := True, g_lastMouse := \<lparr>POINT_x = mx, POINT_y = my\<rparr>\<rparr>)"
| "WndProc (WM_MOUSEMOVE mx my) s =
     (if g_rightDragging s
      then Some (s\<lparr>g_cam := (g_cam s)
                    \<lparr>panX := f_add (panX (g_cam s)) (int_to_float (mx - POINT_x (g_lastMouse s))),
                     panY := f_add (panY (g_cam s)) (int_to_float (my - POINT_y (g_lastMouse s)))\<rparr>,
                  g_lastMouse := \<lparr>POINT_x = mx, POINT_y = my\<rparr>\<rparr>)
      else Some s)"
| "WndProc WM_RBUTTONUP s = Some (s\<lparr>g_rightDragging := False\<rparr>)"
| "WndProc (WM_MOUSEWHEEL delta mx my) s = handle_zoom_at_cursor delta mx my s"
| "WndProc (WM_KEYDOWN wParam) s =
     (if wParam = VK_DELETE
      then Some (s\<lparr>g_vecs := veclist_clear (g_vecs s), g_label_counter := 0\<rparr>)
      else if wParam = of_char (CHR ''R'')
      then Some (s\<lparr>g_cam := \<lparr>scale = 80, panX = 0, panY = 0\<rparr>\<rparr>)
      else if wParam = of_char (CHR ''1'') then Some (preset_prev s)
      else if wParam = of_char (CHR ''2'') then Some (preset_next s)
      else Some s)"
| "WndProc WM_DESTROY s = Some (s\<lparr>g_vecs := veclist_free (g_vecs s)\<rparr>)"

subsection \<open>Sequences of preset operations\<close>

text \<open>
  A run of the preset operations: each step is \<^verbatim>\<open>preset_apply_index\<close> with some
  index, \<^verbatim>\<open>preset_next\<close> or \<^verbatim>\<open>preset_prev\<close>, and comes with the values the C
  library's random generator yields at that moment.
\<close>

datatype preset_op = Apply int | Next | Prev

fun preset_step :: "preset_op \<Rightarrow> globals \<Rightarrow> globals" where
  "preset_step (Apply idx) s = preset_apply_index idx s"
| "preset_step Next s = preset_next s"
| "preset_step Prev s = preset_prev s"

fun run_presets :: "(preset_op \<times> (nat \<Rightarrow> nat)) list \<Rightarrow> globals \<Rightarrow> globals" where
  "run_presets [] s = s"
| "run_presets ((p, rnd) # ps) s = run_presets ps (preset_step p (s\<lparr>c_rand := rnd\<rparr>))"

text \<open>
  The relation between the current index, the table and the current name: the index
  is an index of the table and the name is the name of the entry at the index.
\<close>

definition preset_inv :: "globals \<Rightarrow> bool" where
  "preset_inv s \<longleftrightarrow>
     0 \<le> g_preset_index s \<and> g_preset_index s \<le> g_preset_count - 1 \<and>
     g_preset_name s = name (g_presets ! nat (g_preset_index s))"

section \<open>Properties of the label generator\<close>

lemma map_rev_nth:
  "m \<le> length tmp \<Longrightarrow>
   map (\<lambda>i. tmp ! (length tmp - Suc i)) [0..<m] = take m (rev tmp)"
  by (rule nth_equalityI) (auto simp: rev_nth)

lemma make_label_eq:
  "0 < outsz \<Longrightarrow>
   make_label idx outsz =
     take (outsz - 1) (rev (make_label_loop ((idx + 1) mod (SIZE_MAX + 1)) [])) @ [CHR 0x00]"
  by (simp add: make_label_def Let_def map_rev_nth)

lemma make_label_loop_eq:
  "make_label_loop x tmp = tmp @ take (32 - length tmp) (bijective_base26 x)"
proof (induction x tmp rule: make_label_loop.induct)
  case (1 x tmp)
  define c where "c = char_of (of_char (CHR ''a'') + (x - 1) mod 26 :: nat)"
  show ?case
  proof (cases "0 < x \<and> length tmp < 32")
    case True
    then have "make_label_loop x tmp = make_label_loop ((x - 1) div 26) (tmp @ [c])"
      unfolding c_def by (subst make_label_loop.simps) simp
    also have "\<dots> = (tmp @ [c]) @ take (32 - length (tmp @ [c])) (bijective_base26 ((x - 1) div 26))"
      unfolding c_def using True by (rule "1.IH")
    also have "\<dots> = tmp @ take (Suc (31 - length tmp)) (c # bijective_base26 ((x - 1) div 26))"
      by simp
    also have "Suc (31 - length tmp) = 32 - length tmp"
      using True by linarith
    also have "c # bijective_base26 ((x - 1) div 26) = bijective_base26 x"
      unfolding c_def using True by (subst (2) bijective_base26.simps) simp
    finally show ?thesis .
  next
    case False
    have "make_label_loop x tmp = tmp"
      by (subst make_label_loop.simps) (simp only: False if_False)
    moreover have "take (32 - length tmp) (bijective_base26 x) = []"
    proof (cases "x = 0")
      case True
      then show ?thesis
        by (subst bijective_base26.simps) simp
    next
      case False
      with \<open>\<not> (0 < x \<and> length tmp < 32)\<close> show ?thesis
        by simp
    qed
    ultimately show ?thesis
      by simp
  qed
qed

lemma length_bijective_base26:
  "x < 26 ^ k \<Longrightarrow> length (bijective_base26 x) \<le> k"
proof (induction k arbitrary: x)
  case 0
  then show ?case
    by (subst bijective_base26.simps) simp
next
  case (Suc k)
  show ?case
  proof (cases "x = 0")
    case True
    then show ?thesis
      by (subst bijective_base26.simps) simp
  next
    case False
    from Suc.prems have "x - 1 < 26 ^ k * 26"
      by simp
    then have "(x - 1) div 26 < 26 ^ k"
      by (rule less_mult_imp_div_less)
    then have "length (bijective_base26 ((x - 1) div 26)) \<le> k"
      by (rule Suc.IH)
    with False show ?thesis
      by (subst bijective_base26.simps) simp
  qed
qed

lemma letter_not_NUL:
  "char_of (of_char (CHR ''a'') + k mod 26 :: nat) \<noteq> CHR 0x00"
proof
  assume "char_of (of_char (CHR ''a'') + k mod 26 :: nat) = CHR 0x00"
  then have "of_char (char_of (of_char (CHR ''a'') + k mod 26 :: nat)) = (of_char (CHR 0x00) :: nat)"
    by (rule arg_cong)
  then have *: "(97 + k mod 26) mod 256 = (0 :: nat)"
    by simp
  have "k mod 26 < 26"
    by simp
  then have "97 + k mod 26 < 256"
    by linarith
  then have "(97 + k mod 26) mod 256 = 97 + k mod 26"
    by (rule mod_less)
  with * show False
    by linarith
qed

lemma bijective_base26_no_NUL:
  "CHR 0x00 \<notin> set (bijective_base26 x)"
proof (induction x rule: bijective_base26.induct)
  case (1 n)
  show ?case
  proof (cases "n = 0")
    case True
    then show ?thesis
      by (subst bijective_base26.simps) simp
  next
    case False
    then have "CHR 0x00 \<notin> set (bijective_base26 ((n - 1) div 26))"
      by (rule "1.IH")
    with False letter_not_NUL [of "n - 1"] show ?thesis
      by (subst bijective_base26.simps) (simp del: of_char_Char)
  qed
qed

lemma c_str_terminated:
  "CHR 0x00 \<notin> set ls \<Longrightarrow> c_str (ls @ [CHR 0x00]) = ls"
  by (induction ls) (auto simp: c_str_def)

lemma make_label_loop_no_NUL:
  "CHR 0x00 \<notin> set (make_label_loop x [])"
  using bijective_base26_no_NUL [of x]
  by (auto simp: make_label_loop_eq dest: in_set_takeD)

lemma c_str_make_label:
  "0 < outsz \<Longrightarrow>
   c_str (make_label idx outsz) =
     take (outsz - 1) (rev (make_label_loop ((idx + 1) mod (SIZE_MAX + 1)) []))"
proof -
  assume "0 < outsz"
  have "CHR 0x00 \<notin> set (take (outsz - 1) (rev (make_label_loop ((idx + 1) mod (SIZE_MAX + 1)) [])))"
    using make_label_loop_no_NUL by (auto dest: in_set_takeD)
  then have "c_str (take (outsz - 1) (rev (make_label_loop ((idx + 1) mod (SIZE_MAX + 1)) [])) @ [CHR 0x00]) =
      take (outsz - 1) (rev (make_label_loop ((idx + 1) mod (SIZE_MAX + 1)) []))"
    by (rule c_str_terminated)
  with \<open>0 < outsz\<close> show ?thesis
    by (simp only: make_label_eq)
qed

lemma make_label_loop_full:
  "x \<le> SIZE_MAX \<Longrightarrow> make_label_loop x [] = bijective_base26 x"
proof -
  assume "x \<le> SIZE_MAX"
  then have "x < 26 ^ 32"
    by (simp add: SIZE_MAX_def)
  then have "length (bijective_base26 x) \<le> 32"
    by (rule length_bijective_base26)
  then show ?thesis
    by (simp add: make_label_loop_eq)
qed

lemmas label_eval =
  c_str_make_label SIZE_MAX_def make_label_loop.simps char_of_def bit_Suc_0_iff

lemma letter_code:
  "of_char (char_of (of_char (CHR ''a'') + k mod 26 :: nat)) = (97 + k mod 26 :: nat)"
proof -
  have "k mod 26 < 26"
    by simp
  then have "97 + k mod 26 < 256"
    by linarith
  then have "(97 + k mod 26) mod 256 = 97 + k mod 26"
    by (rule mod_less)
  then show ?thesis
    by simp
qed

lemma bijective_base26_Suc:
  "0 < n \<Longrightarrow>
   bijective_base26 n =
     char_of (of_char (CHR ''a'') + (n - 1) mod 26 :: nat) # bijective_base26 ((n - 1) div 26)"
  by (subst bijective_base26.simps) simp

lemma bijective_base26_0: "bijective_base26 0 = []"
  by (subst bijective_base26.simps) simp

lemma bijective_base26_value:
  "foldr (\<lambda>c v. 26 * v + (of_char c - of_char (CHR ''a'') + 1)) (bijective_base26 n) 0 = n"
proof (induction n rule: bijective_base26.induct)
  case (1 n)
  let ?f = "\<lambda>c v. 26 * v + ((of_char c :: nat) - of_char (CHR ''a'') + 1)"
  show ?case
  proof (cases "n = 0")
    case True
    then show ?thesis
      by (simp add: bijective_base26_0)
  next
    case False
    then have ih: "foldr ?f (bijective_base26 ((n - 1) div 26)) 0 = (n - 1) div 26"
      by (rule "1.IH")
    from False have pos: "0 < n"
      by simp
    have "foldr ?f (bijective_base26 n) 0
        = foldr ?f (char_of (of_char (CHR ''a'') + (n - 1) mod 26 :: nat)
                      # bijective_base26 ((n - 1) div 26)) 0"
      by (simp only: bijective_base26_Suc [OF pos])
    also have "\<dots> = 26 * foldr ?f (bijective_base26 ((n - 1) div 26)) 0
          + (of_char (char_of (of_char (CHR ''a'') + (n - 1) mod 26 :: nat)) - of_char (CHR ''a'') + 1)"
      by (simp only: foldr.simps o_apply)
    also have "\<dots> = 26 * ((n - 1) div 26) + ((97 + (n - 1) mod 26) - of_char (CHR ''a'') + 1)"
      by (simp only: ih letter_code)
    also have "\<dots> = 26 * ((n - 1) div 26) + ((n - 1) mod 26 + 1)"
      by simp
    also have "\<dots> = n"
      using pos by simp
    finally show ?thesis .
  qed
qed

lemma label_value_label_for:
  "label_value (label_for idx) = idx + 1"
  using bijective_base26_value [of "idx + 1"]
  by (simp add: label_value_def label_for_def foldr_conv_foldl)

lemma bijective_base26_letters:
  "c \<in> set (bijective_base26 n) \<Longrightarrow>
   of_char (CHR ''a'') \<le> (of_char c :: nat) \<and> (of_char c :: nat) \<le> of_char (CHR ''z'')"
proof (induction n rule: bijective_base26.induct)
  case (1 n)
  show ?case
  proof (cases "n = 0")
    case True
    with "1.prems" show ?thesis
      by (simp add: bijective_base26_0)
  next
    case False
    with "1.prems" consider
      "c = char_of (of_char (CHR ''a'') + (n - 1) mod 26 :: nat)"
      | "c \<in> set (bijective_base26 ((n - 1) div 26))"
      by (auto simp: bijective_base26_Suc simp del: of_char_Char)
    then show ?thesis
    proof cases
      case 1
      have "(n - 1) mod 26 < 26"
        by simp
      then have "97 + (n - 1) mod 26 \<le> 122"
        by linarith
      then show ?thesis
        unfolding 1 letter_code by simp
    next
      case 2
      with False show ?thesis
        by (rule "1.IH")
    qed
  qed
qed

lemma length_bijective_base26_step:
  assumes "\<And>m. m \<le> b \<Longrightarrow> length (bijective_base26 m) \<le> k" and "n \<le> 26 * b + 26"
  shows "length (bijective_base26 n) \<le> Suc k"
proof (cases "n = 0")
  case True
  then show ?thesis
    by (simp add: bijective_base26_0)
next
  case False
  with assms(2) have "n - 1 < (b + 1) * 26"
    by simp
  then have "(n - 1) div 26 < b + 1"
    by (rule less_mult_imp_div_less)
  then have "(n - 1) div 26 \<le> b"
    by simp
  then have "length (bijective_base26 ((n - 1) div 26)) \<le> k"
    by (rule assms(1))
  with False show ?thesis
    by (simp add: bijective_base26_Suc)
qed

lemma seven_letters:
  assumes "n \<le> 8353082582"
  shows "length (bijective_base26 n) \<le> 7"
proof -
  have l0: "length (bijective_base26 m) \<le> 0" if "m \<le> 0" for m
    using that by (simp add: bijective_base26_0)
  have l1: "length (bijective_base26 m) \<le> Suc 0" if "m \<le> 26" for m
    by (rule length_bijective_base26_step [where b = 0], rule l0, assumption, use that in simp)
  have l2: "length (bijective_base26 m) \<le> Suc (Suc 0)" if "m \<le> 702" for m
    by (rule length_bijective_base26_step [where b = 26], rule l1, assumption, use that in simp)
  have l3: "length (bijective_base26 m) \<le> Suc (Suc (Suc 0))" if "m \<le> 18278" for m
    by (rule length_bijective_base26_step [where b = 702], rule l2, assumption, use that in simp)
  have l4: "length (bijective_base26 m) \<le> Suc (Suc (Suc (Suc 0)))" if "m \<le> 475254" for m
    by (rule length_bijective_base26_step [where b = 18278], rule l3, assumption, use that in simp)
  have l5: "length (bijective_base26 m) \<le> Suc (Suc (Suc (Suc (Suc 0))))" if "m \<le> 12356630" for m
    by (rule length_bijective_base26_step [where b = 475254], rule l4, assumption, use that in simp)
  have l6: "length (bijective_base26 m) \<le> Suc (Suc (Suc (Suc (Suc (Suc 0)))))"
    if "m \<le> 321272406" for m
    by (rule length_bijective_base26_step [where b = 12356630], rule l5, assumption, use that in simp)
  have "length (bijective_base26 n) \<le> Suc (Suc (Suc (Suc (Suc (Suc (Suc 0))))))"
    by (rule length_bijective_base26_step [where b = 321272406], rule l6, assumption, use assms in simp)
  then show ?thesis
    by simp
qed

lemma make_label_full:
  assumes "idx < 8353082582"
  shows "c_str (make_label idx 8) = label_for idx"
proof -
  from assms have small: "idx + 1 \<le> SIZE_MAX" and wrap: "(idx + 1) mod (SIZE_MAX + 1) = idx + 1"
    by (simp_all add: SIZE_MAX_def)
  from assms have "idx + 1 \<le> 8353082582"
    by simp
  then have len: "length (bijective_base26 (idx + 1)) \<le> 7"
    by (rule seven_letters)
  have "c_str (make_label idx 8) =
      take (8 - 1) (rev (make_label_loop ((idx + 1) mod (SIZE_MAX + 1)) []))"
    by (rule c_str_make_label) simp
  also have "\<dots> = take 7 (rev (bijective_base26 (idx + 1)))"
    by (simp only: wrap make_label_loop_full [OF small]) simp
  also have "\<dots> = label_for idx"
    using len by (simp add: label_for_def)
  finally show ?thesis .
qed

text \<open>
  C3. The label generator implements bijective base 26 over 0-based indices. In the
  8-byte buffer of a vector entry, index 0 is labelled \<open>a\<close>, 25 \<open>z\<close>, 26 \<open>aa\<close>, 701
  \<open>zz\<close> and 702 \<open>aaa\<close>; and for every index below 8353082582, the first whose label
  needs 8 letters, the label written by \<open>make_label\<close> is \<open>label_for\<close> of the index,
  the bijective base-26 representation of the specification: its letters are
  lower-case letters, and read as digits 1 to 26, most significant first, they
  denote the number \<open>index + 1\<close>.
\<close>

theorem make_label_sequence:
  "c_str (make_label 0 8) = ''a'' \<and>
   c_str (make_label 25 8) = ''z'' \<and>
   c_str (make_label 26 8) = ''aa'' \<and>
   c_str (make_label 701 8) = ''zz'' \<and>
   c_str (make_label 702 8) = ''aaa'' \<and>
   (idx < 8353082582 \<longrightarrow>
      c_str (make_label idx 8) = label_for idx \<and>
      (\<forall>c \<in> set (c_str (make_label idx 8)).
         of_char (CHR ''a'') \<le> (of_char c :: nat) \<and> (of_char c :: nat) \<le> of_char (CHR ''z'')) \<and>
      label_value (c_str (make_label idx 8)) = idx + 1)"
proof (intro conjI impI ballI)
  show "c_str (make_label 0 8) = ''a''"
    by (simp add: label_eval)
  show "c_str (make_label 25 8) = ''z''"
    by (simp add: label_eval)
  show "c_str (make_label 26 8) = ''aa''"
    by (simp add: label_eval)
  show "c_str (make_label 701 8) = ''zz''"
    by (simp add: label_eval)
  show "c_str (make_label 702 8) = ''aaa''"
    by (simp add: label_eval)
next
  assume "idx < 8353082582"
  then show "c_str (make_label idx 8) = label_for idx"
    by (rule make_label_full)
next
  fix c
  assume "idx < 8353082582" and "c \<in> set (c_str (make_label idx 8))"
  then have "c \<in> set (bijective_base26 (idx + 1))"
    by (simp add: make_label_full label_for_def)
  then show "of_char (CHR ''a'') \<le> (of_char c :: nat)" and "(of_char c :: nat) \<le> of_char (CHR ''z'')"
    by (simp_all only: bijective_base26_letters)
next
  assume "idx < 8353082582"
  then show "label_value (c_str (make_label idx 8)) = idx + 1"
    by (simp only: make_label_full label_value_label_for)
qed

text \<open>
  Index 27 is labelled \<open>ab\<close>, more significant letter first, and index 51 \<open>az\<close>:
  \<open>1 * 26 + 2 = 28\<close> and \<open>1 * 26 + 26 = 52\<close>.
\<close>

theorem make_label_sequence_witness:
  "(27 :: nat) < 8353082582 \<and>
   c_str (make_label 27 8) = label_for 27 \<and>
   list_all (\<lambda>c. of_char (CHR ''a'') \<le> (of_char c :: nat) \<and> (of_char c :: nat) \<le> of_char (CHR ''z''))
     (c_str (make_label 27 8)) \<and>
   label_value (c_str (make_label 27 8)) = 27 + 1 \<and>
   c_str (make_label 27 8) = ''ab'' \<and>
   label_for 27 = ''ab'' \<and>
   label_value ''ab'' = 28 \<and>
   c_str (make_label 51 8) = ''az''"
proof -
  have small: "(27 :: nat) < 8353082582"
    by simp
  have ab: "c_str (make_label 27 8) = ''ab''"
    by (simp add: label_eval)
  have az: "c_str (make_label 51 8) = ''az''"
    by (simp add: label_eval)
  have lf: "label_for 27 = ''ab''"
    by (simp add: label_for_def bijective_base26.simps char_of_def bit_Suc_0_iff)
  have lv: "label_value ''ab'' = 28"
    by (simp add: label_value_def)
  from make_label_sequence [of 27] small have
    "c_str (make_label 27 8) = label_for 27"
    "\<forall>c \<in> set (c_str (make_label 27 8)).
       of_char (CHR ''a'') \<le> (of_char c :: nat) \<and> (of_char c :: nat) \<le> of_char (CHR ''z'')"
    "label_value (c_str (make_label 27 8)) = 27 + 1"
    by blast+
  with small ab az lf lv show ?thesis
    by (simp only: list_all_iff)
qed

text \<open>
  C9. For every index, the bytes written to the 8-byte label buffer of a vector entry
  are a label of at most 7 letters followed by the terminator. For an index whose
  successor does not wrap \<^verbatim>\<open>size_t\<close>, the label is the first 7 letters of the full
  bijective base-26 representation, which has its most significant letter first: a
  longer representation loses its less significant letters.
\<close>

theorem make_label_truncates:
  "make_label idx 8 = c_str (make_label idx 8) @ [CHR 0x00] \<and>
   length (c_str (make_label idx 8)) \<le> 7 \<and>
   (idx < SIZE_MAX \<longrightarrow> c_str (make_label idx 8) = take 7 (label_for idx))"
proof (intro conjI impI)
  have written: "make_label idx 8 =
      take (8 - 1) (rev (make_label_loop ((idx + 1) mod (SIZE_MAX + 1)) [])) @ [CHR 0x00]"
    by (rule make_label_eq) simp
  have str: "c_str (make_label idx 8) =
      take (8 - 1) (rev (make_label_loop ((idx + 1) mod (SIZE_MAX + 1)) []))"
    by (rule c_str_make_label) simp
  show "make_label idx 8 = c_str (make_label idx 8) @ [CHR 0x00]"
    unfolding str by (rule written)
  show "length (c_str (make_label idx 8)) \<le> 7"
    unfolding str by simp
  assume "idx < SIZE_MAX"
  then have "(idx + 1) mod (SIZE_MAX + 1) = idx + 1" and "idx + 1 \<le> SIZE_MAX"
    by simp_all
  then show "c_str (make_label idx 8) = take 7 (label_for idx)"
    unfolding str by (simp add: make_label_loop_full label_for_def)
qed

lemmas label_for_eval =
  label_for_def bijective_base26.simps char_of_def bit_Suc_0_iff

text \<open>
  Index 8353082582 is the first whose representation has 8 letters (\<open>aaaaaaaa\<close>):
  the buffer keeps 7 of them.
\<close>

theorem make_label_truncates_witness:
  "(8353082582 :: nat) < SIZE_MAX \<and>
   label_for 8353082582 = ''aaaaaaaa'' \<and>
   c_str (make_label 8353082582 8) = ''aaaaaaa'' \<and>
   make_label 8353082582 8 = ''aaaaaaa'' @ [CHR 0x00]"
proof -
  have small: "(8353082582 :: nat) < SIZE_MAX"
    by (simp add: SIZE_MAX_def)
  have full: "label_for 8353082582 = ''aaaaaaaa''"
    by (simp add: label_for_eval)
  note t = make_label_truncates [of 8353082582]
  from t small have "c_str (make_label 8353082582 8) = take 7 (label_for 8353082582)"
    by blast
  then have kept: "c_str (make_label 8353082582 8) = ''aaaaaaa''"
    unfolding full by simp
  from t have "make_label 8353082582 8 = c_str (make_label 8353082582 8) @ [CHR 0x00]"
    by blast
  then have "make_label 8353082582 8 = ''aaaaaaa'' @ [CHR 0x00]"
    unfolding kept .
  with small full kept show ?thesis
    by blast
qed

section \<open>Properties of the camera transform\<close>

subsection \<open>Rounding to binary32\<close>


lemma rne_of_int: "rne (real_of_int n) = n"
  by (simp add: rne_def)

lemma round32_exp:
  assumes "2 powr real_of_int e \<le> \<bar>r\<bar>" and "\<bar>r\<bar> < 2 powr real_of_int (e + 1)" and "- 126 \<le> e"
  shows "round32 r = real_of_int (rne (r / 2 powr real_of_int (e - 23))) * 2 powr real_of_int (e - 23)"
proof -
  have "0 < (2::real) powr real_of_int e"
    by simp
  with assms(1) have pos: "0 < \<bar>r\<bar>"
    by linarith
  then have "\<lfloor>log 2 \<bar>r\<bar>\<rfloor> = e"
    using assms(1,2) by (simp add: floor_log_eq_powr_iff)
  with pos assms(3) show ?thesis
    by (simp add: round32_def Let_def max_def)
qed

lemma round32_ge1:
  assumes "2 ^ k \<le> \<bar>r\<bar>" and "\<bar>r\<bar> < 2 * 2 ^ k" and "k \<le> 23"
  shows "round32 r = real_of_int (rne (r * 2 ^ (23 - k))) / 2 ^ (23 - k)"
proof -
  have a: "(2::real) powr real_of_int (int k) = 2 ^ k"
    by (simp add: powr_realpow)
  have "(2::real) powr (real k + 1) = 2 powr real k * 2 powr 1"
    by (rule powr_add)
  then have b: "(2::real) powr real_of_int (int k + 1) = 2 * 2 ^ k"
    by (simp add: powr_realpow)
  have "real_of_int (int k - 23) = - real (23 - k)"
    using assms(3) by simp
  then have "(2::real) powr real_of_int (int k - 23) = 2 powr (- real (23 - k))"
    by (rule arg_cong)
  also have "\<dots> = 1 / 2 ^ (23 - k)"
    by (simp only: powr_minus_divide) (simp add: powr_realpow)
  finally have c: "(2::real) powr real_of_int (int k - 23) = 1 / 2 ^ (23 - k)" .
  have h1: "2 powr real_of_int (int k) \<le> \<bar>r\<bar>"
    unfolding a by (rule assms(1))
  have h2: "\<bar>r\<bar> < 2 powr real_of_int (int k + 1)"
    unfolding b by (rule assms(2))
  have h3: "- 126 \<le> int k"
    by simp
  have "round32 r = real_of_int (rne (r / (1 / 2 ^ (23 - k)))) * (1 / 2 ^ (23 - k))"
    using round32_exp [OF h1 h2 h3] unfolding c .
  then show ?thesis
    by simp
qed

lemma round32_lt1:
  assumes "1 / 2 ^ k \<le> \<bar>r\<bar>" and "\<bar>r\<bar> < 2 / 2 ^ k" and "k \<le> 126"
  shows "round32 r = real_of_int (rne (r * 2 ^ (23 + k))) / 2 ^ (23 + k)"
proof -
  have m: "(2::real) powr (- real n) = 1 / 2 ^ n" for n
    by (simp only: powr_minus_divide) (simp add: powr_realpow)
  have "real_of_int (- int k) = - real k"
    by simp
  then have "(2::real) powr real_of_int (- int k) = 2 powr (- real k)"
    by (rule arg_cong)
  then have a: "(2::real) powr real_of_int (- int k) = 1 / 2 ^ k"
    by (simp only: m)
  have "real_of_int (- int k + 1) = - real k + 1"
    by simp
  then have "(2::real) powr real_of_int (- int k + 1) = 2 powr (- real k + 1)"
    by (rule arg_cong)
  also have "\<dots> = 2 powr (- real k) * 2 powr 1"
    by (rule powr_add)
  also have "\<dots> = 2 / 2 ^ k"
    by (simp only: m) simp
  finally have b: "(2::real) powr real_of_int (- int k + 1) = 2 / 2 ^ k" .
  have "real_of_int (- int k - 23) = - real (23 + k)"
    by simp
  then have "(2::real) powr real_of_int (- int k - 23) = 2 powr (- real (23 + k))"
    by (rule arg_cong)
  then have c: "(2::real) powr real_of_int (- int k - 23) = 1 / 2 ^ (23 + k)"
    by (simp only: m)
  have h1: "2 powr real_of_int (- int k) \<le> \<bar>r\<bar>"
    unfolding a by (rule assms(1))
  have h2: "\<bar>r\<bar> < 2 powr real_of_int (- int k + 1)"
    unfolding b by (rule assms(2))
  have h3: "- 126 \<le> - int k"
    using assms(3) by simp
  have "round32 r = real_of_int (rne (r / (1 / 2 ^ (23 + k)))) * (1 / 2 ^ (23 + k))"
    using round32_exp [OF h1 h2 h3] unfolding c .
  then show ?thesis
    by simp
qed










lemma round32_of_int:
  assumes "\<bar>i\<bar> < 16777216"
  shows "round32 (real_of_int i) = real_of_int i"
proof (cases "i = 0")
  case True
  then show ?thesis
    by (simp add: round32_def)
next
  case False
  then have "1 \<le> nat \<bar>i\<bar>"
    by simp
  then obtain k where k: "2 ^ k \<le> nat \<bar>i\<bar>" "nat \<bar>i\<bar> < 2 ^ (k + 1)"
    using ex_power_ivl1 [of 2 "nat \<bar>i\<bar>"] by auto
  have "nat \<bar>i\<bar> < 16777216"
    using assms by simp
  with k(1) have "(2::nat) ^ k < 16777216"
    by linarith
  then have "(2::nat) ^ k < 2 ^ 24"
    by simp
  then have "k < 24"
    by (rule power_less_imp_less_exp [rotated]) simp
  then have k23: "k \<le> 23"
    by simp
  have "real (2 ^ k) \<le> real (nat \<bar>i\<bar>)" and "real (nat \<bar>i\<bar>) < real (2 ^ (k + 1))"
    using k by (simp_all only: of_nat_le_iff of_nat_less_iff)
  then have lo: "2 ^ k \<le> \<bar>real_of_int i\<bar>" and hi: "\<bar>real_of_int i\<bar> < 2 * 2 ^ k"
    by simp_all
  have "real_of_int i * 2 ^ (23 - k) = real_of_int (i * 2 ^ (23 - k))"
    by simp
  then have "rne (real_of_int i * 2 ^ (23 - k)) = i * 2 ^ (23 - k)"
    by (simp only: rne_of_int)
  then show ?thesis
    by (simp add: round32_ge1 [OF lo hi k23])
qed

lemma round32_numeral [simp]:
  "(numeral w :: int) < 16777216 \<Longrightarrow> round32 (numeral w) = numeral w"
  "(numeral w :: int) < 16777216 \<Longrightarrow> round32 (- numeral w) = - numeral w"
  "round32 0 = 0" "round32 1 = 1"
  using round32_of_int [of "numeral w"] round32_of_int [of "- numeral w"]
    round32_of_int [of 0] round32_of_int [of 1]
  by simp_all

lemma int_to_float_numeral [simp]:
  "(numeral w :: int) < 16777216 \<Longrightarrow> int_to_float (numeral w) = numeral w"
  "(numeral w :: int) < 16777216 \<Longrightarrow> int_to_float (- numeral w) = - numeral w"
  "int_to_float 0 = 0" "int_to_float 1 = 1"
  by (simp_all add: int_to_float_def)

lemmas f_ops = f_add_def f_sub_def f_mul_def f_div_def

subsection \<open>Truncation to a pixel\<close>




subsection \<open>The round trip between screen and world\<close>






text \<open>
  One wheel step up from the start the scale is 88. There the round trip of the
  pixel \<open>(2, 2)\<close> ends one pixel to the left: the quotient \<open>-398 / 88\<close> is rounded
  away from zero, the product with 88 is rounded to \<open>-398 - 1/32768\<close>, and the sum
  with 400, \<open>2 - 1/32768\<close>, is truncated to 1.
\<close>

lemma round_trip_loses_pixel:
  "world_to_screen
     (vec2_x (screen_to_world 2 2 (start0\<lparr>g_cam := \<lparr>scale = 88, panX = 0, panY = 0\<rparr>\<rparr>)))
     (vec2_y (screen_to_world 2 2 (start0\<lparr>g_cam := \<lparr>scale = 88, panX = 0, panY = 0\<rparr>\<rparr>)))
     (start0\<lparr>g_cam := \<lparr>scale = 88, panX = 0, panY = 0\<rparr>\<rparr>)
   = Some \<lparr>POINT_x = 1, POINT_y = 2\<rparr>"
proof -
  have r0: "round32 (- (199 / 44)) = - (9484847 / 2097152)"
    by (subst round32_ge1 [where k = 2]) (simp_all add: rne_def)
  have r1: "round32 (149 / 44) = 14203439 / 4194304"
    by (subst round32_ge1 [where k = 1]) (simp_all add: rne_def)
  have r2: "round32 (- (104333317 / 262144)) = - (13041665 / 32768)"
    by (subst round32_ge1 [where k = 8]) (simp_all add: rne_def)
  have r3: "round32 (65535 / 32768) = 65535 / 32768"
    by (subst round32_ge1 [where k = 0]) (simp_all add: rne_def)
  have r4: "round32 (156237829 / 524288) = 298"
    by (subst round32_ge1 [where k = 8]) (simp_all add: rne_def)
  show ?thesis
    by (simp add: world_to_screen_def screen_to_world_def start0_def init_globals_def f_ops
        r0 r1 r2 r3 r4 float_to_int_def c_trunc_def INT_MIN_def INT_MAX_def)
qed



subsection \<open>Zoom at the cursor\<close>

lemma zoom_in_factor: "round32 1.1 = 9227469 / 8388608"
  by (subst round32_ge1 [where k = 0]) (simp_all add: rne_def)

lemma zoom_out_quotient: "f_div 1 (9227469 / 8388608) = 7626007 / 8388608"
  unfolding f_div_def
  by (subst round32_lt1 [where k = 1]) (simp_all add: rne_def)

lemma zoom_out_factor: "f_div 1 (round32 1.1) = 7626007 / 8388608"
  by (simp only: zoom_in_factor zoom_out_quotient)








section \<open>Properties of the grid step\<close>

lemma floor_log10:
  assumes "10 powr real_of_int k \<le> t" and "t < 10 powr real_of_int (k + 1)"
  shows "\<lfloor>log 10 t\<rfloor> = k"
proof -
  have "0 < (10::real) powr real_of_int k"
    by simp
  with assms(1) have "0 < t"
    by linarith
  then show ?thesis
    using assms by (simp add: floor_log_eq_powr_iff)
qed

lemma nice_step_decade:
  assumes "0 < t"
  shows "10 powr real_of_int \<lfloor>log 10 t\<rfloor> \<le> t" and "t < 10 * 10 powr real_of_int \<lfloor>log 10 t\<rfloor>"
proof -
  have *: "10 powr real_of_int \<lfloor>log 10 t\<rfloor> \<le> t \<and> t < 10 powr real_of_int (\<lfloor>log 10 t\<rfloor> + 1)"
    using assms floor_log_eq_powr_iff [of t 10 "\<lfloor>log 10 t\<rfloor>"] by simp
  then show "10 powr real_of_int \<lfloor>log 10 t\<rfloor> \<le> t"
    by simp
  have "(10::real) powr real_of_int (\<lfloor>log 10 t\<rfloor> + 1) = 10 * 10 powr real_of_int \<lfloor>log 10 t\<rfloor>"
    by (simp add: powr_add)
  with * show "t < 10 * 10 powr real_of_int \<lfloor>log 10 t\<rfloor>"
    by simp
qed

text \<open>
  C4. The grid step follows the 1-2-5-10 ladder of the decade of its argument:
  \<open>nice_step(0.9) = 1\<close>, \<open>nice_step(1.8) = 2\<close>, \<open>nice_step(4) = 5\<close>,
  \<open>nice_step(9) = 10\<close>, \<open>nice_step(15) = 20\<close>; an argument that is not positive
  gives 1; for a positive argument, with \<open>base = 10 ^ floor (log10 target)\<close> and
  \<open>frac = target / base\<close> (which lies in \<open>[1, 10)\<close>), the step is \<open>base\<close> when
  \<open>frac < 1.5\<close>, \<open>2 * base\<close> when \<open>frac < 3\<close>, \<open>5 * base\<close> when \<open>frac < 7\<close> and
  \<open>10 * base\<close> otherwise.
\<close>

theorem nice_step_ladder:
  "nice_step_for_scale 0.9 = 1 \<and>
   nice_step_for_scale 1.8 = 2 \<and>
   nice_step_for_scale 4 = 5 \<and>
   nice_step_for_scale 9 = 10 \<and>
   nice_step_for_scale 15 = 20 \<and>
   (target \<le> 0 \<longrightarrow> nice_step_for_scale target = 1) \<and>
   (0 < target \<longrightarrow>
      (let base = 10 powr real_of_int \<lfloor>log 10 target\<rfloor>; frac = target / base
       in 1 \<le> frac \<and> frac < 10 \<and>
          nice_step_for_scale target =
            (if frac < 1.5 then 1 * base else if frac < 3 then 2 * base
             else if frac < 7 then 5 * base else 10 * base)))"
proof (intro conjI impI)
  have "\<lfloor>log 10 (0.9::real)\<rfloor> = - 1"
    by (rule floor_log10) (simp_all add: powr_real_of_int)
  then show "nice_step_for_scale 0.9 = 1"
    by (simp add: nice_step_for_scale_def powr_real_of_int)
  have "\<lfloor>log 10 (1.8::real)\<rfloor> = 0"
    by (rule floor_log10) (simp_all add: powr_real_of_int)
  then show "nice_step_for_scale 1.8 = 2"
    by (simp add: nice_step_for_scale_def powr_real_of_int)
  have "\<lfloor>log 10 (4::real)\<rfloor> = 0"
    by (rule floor_log10) (simp_all add: powr_real_of_int)
  then show "nice_step_for_scale 4 = 5"
    by (simp add: nice_step_for_scale_def powr_real_of_int)
  have "\<lfloor>log 10 (9::real)\<rfloor> = 0"
    by (rule floor_log10) (simp_all add: powr_real_of_int)
  then show "nice_step_for_scale 9 = 10"
    by (simp add: nice_step_for_scale_def powr_real_of_int)
  have "\<lfloor>log 10 (15::real)\<rfloor> = 1"
    by (rule floor_log10) (simp_all add: powr_real_of_int)
  then show "nice_step_for_scale 15 = 20"
    by (simp add: nice_step_for_scale_def powr_real_of_int)
next
  assume "target \<le> 0"
  then show "nice_step_for_scale target = 1"
    by (simp add: nice_step_for_scale_def)
next
  assume pos: "0 < target"
  define base where "base = 10 powr real_of_int \<lfloor>log 10 target\<rfloor>"
  have b: "0 < base"
    by (simp add: base_def)
  from nice_step_decade [OF pos] have "base \<le> target" and "target < 10 * base"
    by (simp_all add: base_def)
  with b have "1 \<le> target / base" and "target / base < 10"
    by (simp_all add: field_simps)
  moreover have "nice_step_for_scale target =
      (if target / base < 1.5 then 1 * base else if target / base < 3 then 2 * base
       else if target / base < 7 then 5 * base else 10 * base)"
    using pos by (simp add: nice_step_for_scale_def base_def Let_def)
  ultimately show "let base = 10 powr real_of_int \<lfloor>log 10 target\<rfloor>; frac = target / base
      in 1 \<le> frac \<and> frac < 10 \<and>
         nice_step_for_scale target =
           (if frac < 1.5 then 1 * base else if frac < 3 then 2 * base
            else if frac < 7 then 5 * base else 10 * base)"
    unfolding Let_def base_def by blast
qed

theorem nice_step_ladder_witness:
  "(- 3 :: real) \<le> 0 \<and> nice_step_for_scale (- 3) = 1 \<and>
   (0 :: real) < 1 / 20 \<and> nice_step_for_scale (1 / 20) = 5 / 100"
proof -
  have neg: "(- 3 :: real) \<le> 0" and pos: "(0 :: real) < 1 / 20"
    by simp_all
  from nice_step_ladder [of "- 3"] neg have a: "nice_step_for_scale (- 3) = 1"
    by blast
  have k: "\<lfloor>log 10 (1 / 20 :: real)\<rfloor> = - 2"
    by (rule floor_log10) (simp_all add: powr_neg_numeral)
  from nice_step_ladder [of "1 / 20"] pos
  have "let base = 10 powr real_of_int \<lfloor>log 10 (1 / 20 :: real)\<rfloor>; frac = (1 / 20) / base
      in 1 \<le> frac \<and> frac < 10 \<and>
         nice_step_for_scale (1 / 20) =
           (if frac < 1.5 then 1 * base else if frac < 3 then 2 * base
            else if frac < 7 then 5 * base else 10 * base)"
    by blast
  then have b: "nice_step_for_scale (1 / 20) = 5 / 100"
    by (simp add: k powr_neg_numeral Let_def)
  from neg a pos b show ?thesis
    by blast
qed

section \<open>Properties of the vector functions\<close>

text \<open>
  C6. \<open>equal(a, b, eps)\<close> holds exactly when both vectors are shorter than \<open>eps\<close>,
  or each component satisfies \<open>|a\<^sub>i - b\<^sub>i| \<le> eps * max(|a\<^sub>i|, |b\<^sub>i|)\<close>. So it is
  reflexive for every tolerance \<open>eps \<ge> 0\<close>, and two zero vectors are equal for
  every \<open>eps > 0\<close>.
\<close>

theorem vec2_equal_policy:
  "(vec2_equal a b eps \<longleftrightarrow>
      (sqrt ((vec2_x a)\<^sup>2 + (vec2_y a)\<^sup>2) < eps \<and> sqrt ((vec2_x b)\<^sup>2 + (vec2_y b)\<^sup>2) < eps) \<or>
      (\<bar>vec2_x a - vec2_x b\<bar> \<le> eps * max \<bar>vec2_x a\<bar> \<bar>vec2_x b\<bar> \<and>
       \<bar>vec2_y a - vec2_y b\<bar> \<le> eps * max \<bar>vec2_y a\<bar> \<bar>vec2_y b\<bar>)) \<and>
   (0 \<le> eps \<longrightarrow> vec2_equal a a eps) \<and>
   (0 < eps \<longrightarrow> vec2_equal \<lparr>vec2_x = 0, vec2_y = 0\<rparr> \<lparr>vec2_x = 0, vec2_y = 0\<rparr> eps)"
proof (intro conjI impI)
  show "vec2_equal a b eps \<longleftrightarrow>
      (sqrt ((vec2_x a)\<^sup>2 + (vec2_y a)\<^sup>2) < eps \<and> sqrt ((vec2_x b)\<^sup>2 + (vec2_y b)\<^sup>2) < eps) \<or>
      (\<bar>vec2_x a - vec2_x b\<bar> \<le> eps * max \<bar>vec2_x a\<bar> \<bar>vec2_x b\<bar> \<and>
       \<bar>vec2_y a - vec2_y b\<bar> \<le> eps * max \<bar>vec2_y a\<bar> \<bar>vec2_y b\<bar>)"
    by (auto simp: vec2_equal_def vec2_length_def vec2_length2_def power2_eq_square)
next
  assume "0 \<le> eps"
  then have "0 \<le> eps * \<bar>vec2_x a\<bar>" and "0 \<le> eps * \<bar>vec2_y a\<bar>"
    by simp_all
  then show "vec2_equal a a eps"
    by (simp add: vec2_equal_def)
next
  assume "0 < eps"
  then show "vec2_equal \<lparr>vec2_x = 0, vec2_y = 0\<rparr> \<lparr>vec2_x = 0, vec2_y = 0\<rparr> eps"
    by (simp add: vec2_equal_def vec2_length_def vec2_length2_def)
qed

theorem vec2_equal_policy_witness:
  "0 \<le> EPSILON \<and> 0 < EPSILON \<and>
   vec2_equal \<lparr>vec2_x = 3, vec2_y = - 4\<rparr> \<lparr>vec2_x = 3, vec2_y = - 4\<rparr> EPSILON \<and>
   vec2_equal \<lparr>vec2_x = 0, vec2_y = 0\<rparr> \<lparr>vec2_x = 0, vec2_y = 0\<rparr> EPSILON \<and>
   \<not> vec2_equal \<lparr>vec2_x = 3, vec2_y = - 4\<rparr> \<lparr>vec2_x = 3, vec2_y = 4\<rparr> EPSILON"
proof -
  have e: "0 \<le> EPSILON" "0 < EPSILON"
    by (simp_all add: EPSILON_def)
  note t = vec2_equal_policy [of "\<lparr>vec2_x = 3, vec2_y = - 4\<rparr>" "\<lparr>vec2_x = 3, vec2_y = 4\<rparr>" EPSILON]
  from t e have refl: "vec2_equal \<lparr>vec2_x = 3, vec2_y = - 4\<rparr> \<lparr>vec2_x = 3, vec2_y = - 4\<rparr> EPSILON"
    and zero: "vec2_equal \<lparr>vec2_x = 0, vec2_y = 0\<rparr> \<lparr>vec2_x = 0, vec2_y = 0\<rparr> EPSILON"
    by blast+
  have "sqrt ((3::real)\<^sup>2 + (- 4)\<^sup>2) = 5"
    by (simp add: real_sqrt_unique)
  with t have "\<not> vec2_equal \<lparr>vec2_x = 3, vec2_y = - 4\<rparr> \<lparr>vec2_x = 3, vec2_y = 4\<rparr> EPSILON"
    by (simp add: EPSILON_def)
  with e refl zero show ?thesis
    by blast
qed

text \<open>With a negative \<open>eps\<close>, which is not a tolerance, the comparison is not reflexive.\<close>

lemma vec2_equal_negative_eps:
  "\<not> vec2_equal \<lparr>vec2_x = 1, vec2_y = 0\<rparr> \<lparr>vec2_x = 1, vec2_y = 0\<rparr> (- 1)"
  by (simp add: vec2_equal_def vec2_length_def vec2_length2_def)

text \<open>
  C7. The componentwise absolute value of \<open>v\<close> is \<open>(|v.x|, |v.y|)\<close>. The header
  documents it so, and notes that \<^verbatim>\<open>fabsf\<close> is the function for floating-point
  components; the code calls the integer \<^verbatim>\<open>abs\<close>, which drops the fractional part of
  each component: \<open>(1.5, -2.5)\<close> gives \<open>(1, 2)\<close>, not \<open>(1.5, 2.5)\<close>.
\<close>

theorem vec2_abs_truncates:
  "vec2_abs \<lparr>vec2_x = 1.5, vec2_y = - 2.5\<rparr> = Some \<lparr>vec2_x = 1, vec2_y = 2\<rparr> \<and>
   vec2_abs \<lparr>vec2_x = 1.5, vec2_y = - 2.5\<rparr> \<noteq> Some \<lparr>vec2_x = \<bar>1.5\<bar>, vec2_y = \<bar>- 2.5\<bar>\<rparr>"
  by (simp add: vec2_abs_def float_to_int_def c_trunc_def c_abs_def INT_MIN_def INT_MAX_def)

lemma vec2_abs_eq:
  "vec2_abs a = Some r \<Longrightarrow>
   r = \<lparr>vec2_x = \<bar>real_of_int (c_trunc (vec2_x a))\<bar>, vec2_y = \<bar>real_of_int (c_trunc (vec2_y a))\<bar>\<rparr>"
  by (auto simp: vec2_abs_def float_to_int_def c_abs_def Let_def
      split: option.splits if_splits Option.bind_splits)

section \<open>Properties of the presets\<close>

lemma fold_preserves:
  assumes "\<And>x s. g (f x s) = g s"
  shows "g (fold f xs s) = g s"
  by (induction xs arbitrary: s) (simp_all add: assms)

lemma veclist_push_frame:
  "g_preset_index (veclist_push val col s) = g_preset_index s"
  "g_preset_name (veclist_push val col s) = g_preset_name s"
  "g_cam (veclist_push val col s) = g_cam s"
  "c_rand (veclist_push val col s) = c_rand s"
  by (simp_all add: veclist_push_def Let_def)

lemma reset_list_and_labels_frame:
  "g_preset_index (reset_list_and_labels s) = g_preset_index s"
  "g_preset_name (reset_list_and_labels s) = g_preset_name s"
  "g_cam (reset_list_and_labels s) = g_cam s"
  "c_rand (reset_list_and_labels s) = c_rand s"
  by (simp_all add: reset_list_and_labels_def)

lemma preset_fn_frame:
  assumes "p \<in> set g_presets"
  shows "g_preset_index (fn p s) = g_preset_index s \<and> g_preset_name (fn p s) = g_preset_name s"
proof -
  have add: "g_preset_index (add_vec_col x y c t) = g_preset_index t"
    "g_preset_name (add_vec_col x y c t) = g_preset_name t" for x y c t
    by (simp_all add: add_vec_col_def veclist_push_frame)
  have "g_preset_index (fold f xs (reset_list_and_labels s)) = g_preset_index s \<and>
      g_preset_name (fold f xs (reset_list_and_labels s)) = g_preset_name s"
    if "\<And>x t. g_preset_index (f x t) = g_preset_index t"
      and "\<And>x t. g_preset_name (f x t) = g_preset_name t" for f :: "'a \<Rightarrow> globals \<Rightarrow> globals" and xs
    using that by (simp add: fold_preserves [where g = g_preset_index]
        fold_preserves [where g = g_preset_name] reset_list_and_labels_frame)
  note gen = this
  from assms consider "fn p = preset_empty" | "fn p = preset_basis" | "fn p = preset_spokes"
    | "fn p = preset_random" | "fn p = preset_projection" | "fn p = preset_reflection"
    | "fn p = preset_rotations"
    by (auto simp: g_presets_def)
  then show ?thesis
  proof cases
    case 1
    then show ?thesis
      by (simp add: preset_empty_def reset_list_and_labels_frame)
  next
    case 2
    then show ?thesis
      unfolding preset_basis_def by (simp only:) (rule gen; simp add: add case_prod_beta)
  next
    case 3
    then show ?thesis
      unfolding preset_spokes_def by (simp only:) (rule gen; simp add: add Let_def)
  next
    case 4
    then show ?thesis
      unfolding preset_random_def by (simp only:) (rule gen; simp add: add Let_def)
  next
    case 5
    then show ?thesis
      unfolding preset_projection_def Let_def by (simp only:) (rule gen; simp add: add case_prod_beta)
  next
    case 6
    then show ?thesis
      unfolding preset_reflection_def Let_def by (simp only:) (rule gen; simp add: add case_prod_beta)
  next
    case 7
    then show ?thesis
      unfolding preset_rotations_def Let_def by (simp only:) (rule gen; simp add: add)
  qed
qed

lemma g_preset_count_eq: "g_preset_count = 7"
  by (simp add: g_preset_count_def g_presets_def)

lemma g_presets_nth_in_set:
  "0 \<le> i \<Longrightarrow> i < g_preset_count \<Longrightarrow> g_presets ! nat i \<in> set g_presets"
  by (simp add: g_preset_count_def)

lemma preset_apply_index_sets:
  defines "wrapped idx \<equiv> (if idx < 0 then g_preset_count - 1 else if idx \<ge> g_preset_count then 0 else idx)"
  shows "g_preset_index (preset_apply_index idx s) = wrapped idx"
    and "g_preset_name (preset_apply_index idx s) = name (g_presets ! nat (wrapped idx))"
proof -
  have rng: "0 \<le> wrapped idx" "wrapped idx < g_preset_count"
    by (simp_all add: wrapped_def g_preset_count_eq)
  then have "g_presets ! nat (wrapped idx) \<in> set g_presets"
    by (rule g_presets_nth_in_set)
  note fr = preset_fn_frame [OF this]
  have ap: "preset_apply_index idx s =
      fn (g_presets ! nat (wrapped idx))
        (s\<lparr>g_preset_index := wrapped idx, g_preset_name := name (g_presets ! nat (wrapped idx))\<rparr>)"
    by (simp add: preset_apply_index_def wrapped_def g_preset_count_eq Let_def)
  show "g_preset_index (preset_apply_index idx s) = wrapped idx"
    unfolding ap by (simp add: fr)
  show "g_preset_name (preset_apply_index idx s) = name (g_presets ! nat (wrapped idx))"
    unfolding ap by (simp add: fr)
qed

text \<open>
  C5 (amended). Preset apply sends every negative index to the last entry \<open>N - 1\<close>,
  every index \<open>\<ge> N\<close> to the first entry 0 and keeps an index in range. For the
  indices from \<open>-1\<close> to \<open>N\<close>, the only ones that \<open>next\<close> and \<open>prev\<close> produce from a
  current index in range, this is the index modulo \<open>N\<close>: \<open>prev\<close> from index 0
  lands on \<open>N - 1\<close> and \<open>next\<close> from \<open>N - 1\<close> lands on 0.
\<close>

theorem preset_apply_index_wraps:
  "g_preset_index (preset_apply_index idx s) =
     (if idx < 0 then g_preset_count - 1 else if idx \<ge> g_preset_count then 0 else idx) \<and>
   (- 1 \<le> idx \<and> idx \<le> g_preset_count \<longrightarrow>
      g_preset_index (preset_apply_index idx s) = idx mod g_preset_count) \<and>
   (g_preset_index s = 0 \<longrightarrow> g_preset_index (preset_prev s) = g_preset_count - 1) \<and>
   (g_preset_index s = g_preset_count - 1 \<longrightarrow> g_preset_index (preset_next s) = 0)"
proof (intro conjI impI)
  show "g_preset_index (preset_apply_index idx s) =
      (if idx < 0 then g_preset_count - 1 else if idx \<ge> g_preset_count then 0 else idx)"
    by (rule preset_apply_index_sets)
next
  assume "- 1 \<le> idx \<and> idx \<le> g_preset_count"
  then have "idx = - 1 \<or> idx = g_preset_count \<or> (0 \<le> idx \<and> idx < g_preset_count)"
    by linarith
  then show "g_preset_index (preset_apply_index idx s) = idx mod g_preset_count"
    by (auto simp: preset_apply_index_sets g_preset_count_eq)
next
  assume "g_preset_index s = 0"
  then show "g_preset_index (preset_prev s) = g_preset_count - 1"
    by (simp add: preset_prev_def preset_apply_index_sets)
next
  assume "g_preset_index s = g_preset_count - 1"
  then show "g_preset_index (preset_next s) = 0"
    by (simp add: preset_next_def preset_apply_index_sets g_preset_count_eq)
qed

theorem preset_apply_index_wraps_witness:
  "g_preset_index start0 = 0 \<and>
   g_preset_index (preset_prev start0) = 6 \<and>
   g_preset_index (preset_prev start0) = g_preset_count - 1 \<and>
   g_preset_index (preset_next (preset_prev start0)) = 0 \<and>
   (- 1 :: int) \<le> - 1 \<and> - 1 \<le> g_preset_count \<and>
   g_preset_index (preset_apply_index (- 1) start0) = - 1 mod g_preset_count"
proof -
  have i: "g_preset_index start0 = 0"
    by (simp add: start0_def init_globals_def)
  from preset_apply_index_wraps [of 0 start0] i
  have p: "g_preset_index (preset_prev start0) = g_preset_count - 1"
    by blast
  from preset_apply_index_wraps [of 0 "preset_prev start0"] p
  have n: "g_preset_index (preset_next (preset_prev start0)) = 0"
    by blast
  have r: "(- 1 :: int) \<le> - 1 \<and> - 1 \<le> g_preset_count"
    by (simp add: g_preset_count_eq)
  with preset_apply_index_wraps [of "- 1" start0]
  have m: "g_preset_index (preset_apply_index (- 1) start0) = - 1 mod g_preset_count"
    by blast
  from i p n r m show ?thesis
    by (simp add: g_preset_count_eq)
qed

text \<open>
  C5 as stated fails: the wrapping is not the index modulo \<open>N\<close> outside \<open>[-1, N]\<close>.
  Index \<open>-2\<close> selects entry 6 (modulo 7 it is 5), and index 8 selects entry 0
  (modulo 7 it is 1).
\<close>

theorem preset_apply_index_not_modulo:
  "g_preset_index (preset_apply_index (- 2) start0) = 6 \<and>
   (- 2) mod g_preset_count = 5 \<and>
   g_preset_index (preset_apply_index 8 start0) = 0 \<and>
   8 mod g_preset_count = 1"
  by (simp add: preset_apply_index_sets g_preset_count_eq)

lemma preset_apply_index_inv: "preset_inv (preset_apply_index idx s)"
  by (simp add: preset_inv_def preset_apply_index_sets g_preset_count_eq)

lemma preset_step_inv: "preset_inv (preset_step p s)"
  by (cases p) (simp_all add: preset_next_def preset_prev_def preset_apply_index_inv)

lemma init_globals_inv: "preset_inv (init_globals rnd)"
  by (simp add: preset_inv_def init_globals_def g_preset_count_eq g_presets_def)

lemma run_presets_inv: "preset_inv s \<Longrightarrow> preset_inv (run_presets ps s)"
proof (induction ps arbitrary: s)
  case Nil
  then show ?case
    by simp
next
  case (Cons a ps)
  obtain p rnd where a: "a = (p, rnd)"
    by (cases a)
  have "preset_inv (preset_step p (s\<lparr>c_rand := rnd\<rparr>))"
    by (rule preset_step_inv)
  then have "preset_inv (run_presets ps (preset_step p (s\<lparr>c_rand := rnd\<rparr>)))"
    by (rule Cons.IH)
  then show ?case
    by (simp add: a)
qed

text \<open>
  C10. After any sequence of preset apply, next and prev operations from the initial
  state, the current preset index lies in \<open>[0, count - 1]\<close> and the current preset
  name is the name of the table entry at the current index.
\<close>

theorem preset_index_invariant:
  "0 \<le> g_preset_index (run_presets ps (init_globals rnd)) \<and>
   g_preset_index (run_presets ps (init_globals rnd)) \<le> g_preset_count - 1 \<and>
   g_preset_name (run_presets ps (init_globals rnd)) =
     name (g_presets ! nat (g_preset_index (run_presets ps (init_globals rnd))))"
  using run_presets_inv [OF init_globals_inv, of ps rnd] by (simp add: preset_inv_def)

lemma preset_run_example:
  "g_preset_index (run_presets [(Prev, \<lambda>k. 0), (Prev, \<lambda>k. 0), (Apply 12, \<lambda>k. 0), (Next, \<lambda>k. 0)] start0) = 1 \<and>
   g_preset_name (run_presets [(Prev, \<lambda>k. 0), (Prev, \<lambda>k. 0), (Apply 12, \<lambda>k. 0), (Next, \<lambda>k. 0)] start0) = ''Basis & Diagonals''"
  by (simp add: preset_next_def preset_prev_def preset_apply_index_sets g_preset_count_eq g_presets_def
      start0_def init_globals_def)

section \<open>Properties of the vector collection\<close>

lemma veclist_reserve_wf:
  "veclist_wf v \<Longrightarrow> veclist_wf (veclist_reserve want v) \<and> want \<le> cap (veclist_reserve want v) \<and>
     len (veclist_reserve want v) = len v"
  by (auto simp: veclist_wf_def veclist_reserve_def Let_def)

lemma veclist_clear_wf: "veclist_wf v \<Longrightarrow> veclist_wf (veclist_clear v)"
  by (simp add: veclist_wf_def veclist_clear_def)

text \<open>
  \<open>veclist_push\<close> writes the new entry to the first free slot, with the label that
  \<open>make_label\<close> writes for the current counter to the 8 bytes of the entry's
  buffer, and keeps the entries before it.
\<close>

lemma veclist_push_entry:
  assumes "veclist_wf (g_vecs s)"
  shows "veclist_wf (g_vecs (veclist_push val col s))"
    and "len (g_vecs (veclist_push val col s)) = len (g_vecs s) + 1"
    and "data (g_vecs (veclist_push val col s)) ! len (g_vecs s) =
           Some \<lparr>VEntry_v = val, color = col, label = make_label (g_label_counter s) 8\<rparr>"
    and "i < len (g_vecs s) \<Longrightarrow>
           data (g_vecs (veclist_push val col s)) ! i = data (g_vecs s) ! i"
proof -
  define v where "v = (if len (g_vecs s) + 1 > cap (g_vecs s)
      then veclist_reserve (len (g_vecs s) + 1) (g_vecs s) else g_vecs s)"
  have v: "veclist_wf v" "len (g_vecs s) + 1 \<le> cap v" "len v = len (g_vecs s)"
    using assms veclist_reserve_wf [OF assms, of "len (g_vecs s) + 1"] by (auto simp: v_def)
  have pre: "data v ! i = data (g_vecs s) ! i" if "i < len (g_vecs s)" for i
    using that assms by (auto simp: v_def veclist_reserve_def veclist_wf_def Let_def nth_append)
  have p: "g_vecs (veclist_push val col s) =
      v\<lparr>data := (data v)[len v := Some \<lparr>VEntry_v = val, color = col,
            label = make_label (g_label_counter s) 8\<rparr>],
        len := len v + 1\<rparr>"
    by (simp add: veclist_push_def v_def Let_def)
  show "veclist_wf (g_vecs (veclist_push val col s))"
    using v by (simp add: p veclist_wf_def)
  show "len (g_vecs (veclist_push val col s)) = len (g_vecs s) + 1"
    using v by (simp add: p)
  show "data (g_vecs (veclist_push val col s)) ! len (g_vecs s) =
      Some \<lparr>VEntry_v = val, color = col, label = make_label (g_label_counter s) 8\<rparr>"
    using v by (simp add: p veclist_wf_def)
  show "data (g_vecs (veclist_push val col s)) ! i = data (g_vecs s) ! i" if "i < len (g_vecs s)"
    using that v pre by (simp add: p)
qed

lemma init_globals_wf: "veclist_wf (g_vecs (init_globals rnd))"
  by (simp add: veclist_wf_def init_globals_def)

lemma veclist_push_counter:
  "g_label_counter (veclist_push val col s) = (g_label_counter s + 1) mod (SIZE_MAX + 1)"
  by (simp add: veclist_push_def Let_def)

lemma fold_add_vec_col_counter:
  "g_label_counter s \<le> SIZE_MAX \<Longrightarrow>
   g_label_counter (fold (\<lambda>i. add_vec_col (fx i) (fy i) (fc i)) xs s)
     = (g_label_counter s + length xs) mod (SIZE_MAX + 1)"
proof (induction xs arbitrary: s)
  case Nil
  then show ?case
    by simp
next
  case (Cons a xs)
  have "g_label_counter (add_vec_col (fx a) (fy a) (fc a) s) \<le> SIZE_MAX"
    by (simp add: add_vec_col_def veclist_push_counter less_Suc_eq_le [symmetric])
  then have "g_label_counter (fold (\<lambda>i. add_vec_col (fx i) (fy i) (fc i)) xs
        (add_vec_col (fx a) (fy a) (fc a) s))
      = (g_label_counter (add_vec_col (fx a) (fy a) (fc a) s) + length xs) mod (SIZE_MAX + 1)"
    by (rule Cons.IH)
  also have "\<dots> = ((g_label_counter s + 1) mod (SIZE_MAX + 1) + length xs) mod (SIZE_MAX + 1)"
    by (simp add: add_vec_col_def veclist_push_counter)
  also have "\<dots> = (g_label_counter s + 1 + length xs) mod (SIZE_MAX + 1)"
    by (rule mod_add_left_eq)
  finally show ?case
    by simp
qed

text \<open>
  C8. \<open>clear\<close> sets the length to 0 and leaves the reserved storage, the capacity
  and the label counter as they are. The counter is set to 0 by the operations that
  reset the scene: \<open>reset_list_and_labels\<close>, with which every preset generator
  starts, and the handler of the delete key.
\<close>

theorem veclist_clear_frame:
  "len (veclist_clear v) = 0 \<and>
   cap (veclist_clear v) = cap v \<and>
   data (veclist_clear v) = data v \<and>
   g_label_counter (s\<lparr>g_vecs := veclist_clear (g_vecs s)\<rparr>) = g_label_counter s \<and>
   reset_list_and_labels s = (s\<lparr>g_vecs := veclist_clear (g_vecs s)\<rparr>)\<lparr>g_label_counter := 0\<rparr> \<and>
   g_label_counter (reset_list_and_labels s) = 0 \<and>
   WndProc (WM_KEYDOWN VK_DELETE) s = Some (reset_list_and_labels s) \<and>
   preset_empty s = reset_list_and_labels s \<and>
   g_label_counter (preset_basis s) = 6"
proof -
  have "g_label_counter (preset_basis s) = 6"
    by (simp add: preset_basis_def add_vec_col_def veclist_push_counter
        reset_list_and_labels_def SIZE_MAX_def)
  then show ?thesis
    by (simp add: veclist_clear_def reset_list_and_labels_def preset_empty_def)
qed

lemma WndProc_label_counter:
  assumes "WndProc m s = Some s'"
  shows "g_label_counter s' = g_label_counter s \<or>
         (\<exists>mx my. m = WM_LBUTTONDOWN mx my) \<and>
           g_label_counter s' = (g_label_counter s + 1) mod (SIZE_MAX + 1) \<or>
         m \<in> {WM_CREATE, WM_KEYDOWN VK_DELETE,
              WM_KEYDOWN (of_char (CHR ''1'')), WM_KEYDOWN (of_char (CHR ''2''))}"
  using assms
  by (cases m)
    (auto simp: veclist_push_counter veclist_free_def handle_zoom_at_cursor_def Let_def
      split: option.splits if_splits)

text \<open>
  After one vector, a \<open>clear\<close> alone lets the next vector continue the labels with
  \<open>b\<close>; with the reset of the counter the next vector is \<open>a\<close> again.
\<close>

lemma clear_without_reset_example:
  "c_str (label (the (data (g_vecs
      (veclist_push val col
        ((veclist_push val col start0)
           \<lparr>g_vecs := veclist_clear (g_vecs (veclist_push val col start0))\<rparr>))) ! 0))) = ''b'' \<and>
   c_str (label (the (data (g_vecs
      (veclist_push val col
        (reset_list_and_labels (veclist_push val col start0)))) ! 0))) = ''a''"
  by (simp add: veclist_push_def veclist_reserve_def veclist_clear_def reset_list_and_labels_def
      start0_def init_globals_def Let_def label_eval)

lemma preset_label_counters:
  "g_label_counter (preset_empty s) = 0"
  "g_label_counter (preset_basis s) = 6"
  "g_label_counter (preset_spokes s) = 16"
  "g_label_counter (preset_random s) = 40"
  "g_label_counter (preset_projection s) = 3"
  "g_label_counter (preset_reflection s) = 3"
  "g_label_counter (preset_rotations s) = 12"
proof -
  have z: "g_label_counter (reset_list_and_labels s) \<le> SIZE_MAX"
    by (simp add: reset_list_and_labels_def)
  show "g_label_counter (preset_empty s) = 0"
    by (simp add: preset_empty_def reset_list_and_labels_def)
  show "g_label_counter (preset_basis s) = 6"
    by (simp add: preset_basis_def add_vec_col_def veclist_push_counter
        reset_list_and_labels_def SIZE_MAX_def)
  show "g_label_counter (preset_spokes s) = 16"
    unfolding preset_spokes_def Let_def
    by (simp only: fold_add_vec_col_counter [OF z])
      (simp add: reset_list_and_labels_def SIZE_MAX_def)
  show "g_label_counter (preset_random s) = 40"
    unfolding preset_random_def Let_def
    by (simp only: fold_add_vec_col_counter [OF z])
      (simp add: reset_list_and_labels_def SIZE_MAX_def)
  show "g_label_counter (preset_projection s) = 3"
    by (simp add: preset_projection_def add_vec_col_def veclist_push_counter
        reset_list_and_labels_def SIZE_MAX_def Let_def)
  show "g_label_counter (preset_reflection s) = 3"
    by (simp add: preset_reflection_def add_vec_col_def veclist_push_counter
        reset_list_and_labels_def SIZE_MAX_def Let_def)
  show "g_label_counter (preset_rotations s) = 12"
    unfolding preset_rotations_def Let_def
    by (simp only: fold_add_vec_col_counter [OF z])
      (simp add: reset_list_and_labels_def SIZE_MAX_def)
qed

section \<open>The scale of the camera\<close>

lemma preset_fn_cam:
  assumes "p \<in> set g_presets"
  shows "g_cam (fn p s) = g_cam s"
proof -
  have add: "g_cam (add_vec_col x y c t) = g_cam t" for x y c t
    by (simp add: add_vec_col_def veclist_push_frame)
  have gen: "g_cam (fold f xs (reset_list_and_labels s)) = g_cam s"
    if "\<And>x t. g_cam (f x t) = g_cam t" for f :: "'a \<Rightarrow> globals \<Rightarrow> globals" and xs
    using that by (simp add: fold_preserves [where g = g_cam] reset_list_and_labels_frame)
  from assms consider "fn p = preset_empty" | "fn p = preset_basis" | "fn p = preset_spokes"
    | "fn p = preset_random" | "fn p = preset_projection" | "fn p = preset_reflection"
    | "fn p = preset_rotations"
    by (auto simp: g_presets_def)
  then show ?thesis
  proof cases
    case 1
    then show ?thesis
      by (simp add: preset_empty_def reset_list_and_labels_frame)
  next
    case 2
    then show ?thesis
      unfolding preset_basis_def by (simp only:) (rule gen; simp add: add case_prod_beta)
  next
    case 3
    then show ?thesis
      unfolding preset_spokes_def by (simp only:) (rule gen; simp add: add Let_def)
  next
    case 4
    then show ?thesis
      unfolding preset_random_def by (simp only:) (rule gen; simp add: add Let_def)
  next
    case 5
    then show ?thesis
      unfolding preset_projection_def Let_def by (simp only:) (rule gen; simp add: add case_prod_beta)
  next
    case 6
    then show ?thesis
      unfolding preset_reflection_def Let_def by (simp only:) (rule gen; simp add: add case_prod_beta)
  next
    case 7
    then show ?thesis
      unfolding preset_rotations_def Let_def by (simp only:) (rule gen; simp add: add)
  qed
qed

lemma preset_apply_index_cam: "g_cam (preset_apply_index idx s) = g_cam s"
proof -
  let ?i = "if idx < 0 then g_preset_count - 1 else if idx \<ge> g_preset_count then 0 else idx"
  have "0 \<le> ?i" "?i < g_preset_count"
    by (simp_all add: g_preset_count_eq)
  then have "g_presets ! nat ?i \<in> set g_presets"
    by (rule g_presets_nth_in_set)
  note fr = preset_fn_cam [OF this]
  have "preset_apply_index idx s =
      fn (g_presets ! nat ?i)
        (s\<lparr>g_preset_index := ?i, g_preset_name := name (g_presets ! nat ?i)\<rparr>)"
    by (simp add: preset_apply_index_def g_preset_count_eq Let_def)
  then show ?thesis
    by (simp add: fr)
qed

lemma clampf_range: "a \<le> b \<Longrightarrow> a \<le> clampf r a b \<and> clampf r a b \<le> b"
  by (simp add: clampf_def)

lemma handle_zoom_at_cursor_scale:
  assumes "handle_zoom_at_cursor wheelDelta mx my s = Some s'"
  shows "scale (g_cam s') =
    clampf (f_mul (scale (g_cam s))
              (if wheelDelta > 0 then round32 1.1 else f_div 1 (round32 1.1))) 10 2000"
  using assms by (auto simp: handle_zoom_at_cursor_def Let_def split: option.splits)

text \<open>
  The window procedure keeps the scale of the camera in \<open>[10, 2000]\<close>, where the
  program starts: the scale is never 0 when \<open>screen_to_world\<close> divides by it.
\<close>

lemma WndProc_scale:
  assumes "10 \<le> scale (g_cam s) \<and> scale (g_cam s) \<le> 2000" and "WndProc m s = Some s'"
  shows "10 \<le> scale (g_cam s') \<and> scale (g_cam s') \<le> 2000"
proof (cases m)
  case (WM_MOUSEWHEEL delta mx my)
  with assms(2) have "handle_zoom_at_cursor delta mx my s = Some s'"
    by simp
  then have "scale (g_cam s') =
      clampf (f_mul (scale (g_cam s))
                (if delta > 0 then round32 1.1 else f_div 1 (round32 1.1))) 10 2000"
    by (rule handle_zoom_at_cursor_scale)
  with clampf_range [of 10 2000] show ?thesis
    by simp
qed (use assms in \<open>auto simp: preset_apply_index_cam preset_next_def preset_prev_def
    veclist_push_frame split: if_splits\<close>)

lemma init_globals_scale:
  "10 \<le> scale (g_cam (init_globals rnd)) \<and> scale (g_cam (init_globals rnd)) \<le> 2000"
  by (simp add: init_globals_def)

end
